theory Spec2Isabelle
  imports Main "HOL-Library.Sublist"
begin

section \<open>Python values used by bot.py\<close>

subsection \<open>Strings\<close>

text \<open>
  A Python \<^verbatim>\<open>str\<close> is modelled as a \<^typ>\<open>string\<close>: one \<^typ>\<open>char\<close> per code point, so the
  model covers the strings whose code points are below 256. On that range \<^verbatim>\<open>str.lower\<close>,
  \<^verbatim>\<open>str.isspace\<close> and \<^verbatim>\<open>int\<close> are modelled exactly as CPython 3.11 computes them.
  The emoji and the bullet sign of some fixed message texts lie outside this range and are
  left out of the literals below; no property proved here reads them.
\<close>

datatype py_error = KeyError | TypeError | ValueError | AttributeError

definition nl :: string where
  "nl = [CHR 0x0A]"

definition lower_char :: "char \<Rightarrow> char" where
  \<comment> \<open>A-Z and the Latin-1 capitals (all of 0xC0..0xDE but the multiplication sign) move up by 32,
      which sets bit 5; every other code point below 256 is its own lowercase.\<close>
  "lower_char c =
     (let n = (of_char c :: nat)
      in if (65 \<le> n \<and> n \<le> 90) \<or> (192 \<le> n \<and> n \<le> 222 \<and> n \<noteq> 215)
         then (case c of Char b0 b1 b2 b3 b4 b5 b6 b7 \<Rightarrow> Char b0 b1 b2 b3 b4 True b6 b7)
         else c)"

definition py_lower :: "string \<Rightarrow> string" where
  "py_lower s = map lower_char s"

definition py_replace :: "char \<Rightarrow> string \<Rightarrow> string \<Rightarrow> string" where
  \<comment> \<open>\<^verbatim>\<open>s.replace(old, new)\<close> for a one-character \<^verbatim>\<open>old\<close>.\<close>
  "py_replace old new s = concat (map (\<lambda>c. if c = old then new else [c]) s)"

definition py_startswith :: "string \<Rightarrow> string list \<Rightarrow> bool" where
  \<comment> \<open>\<^verbatim>\<open>s.startswith((p1, p2, ...))\<close>\<close>
  "py_startswith s ps = list_ex (\<lambda>p. prefix p s) ps"

fun py_contains :: "string \<Rightarrow> string \<Rightarrow> bool" where
  \<comment> \<open>\<^verbatim>\<open>sub in s\<close>\<close>
  "py_contains sub [] = (sub = [])"
| "py_contains sub (c # s) = (prefix sub (c # s) \<or> py_contains sub s)"

fun py_split :: "char \<Rightarrow> string \<Rightarrow> string list" where
  \<comment> \<open>\<^verbatim>\<open>s.split(sep)\<close> for a one-character \<^verbatim>\<open>sep\<close>; the result is never empty.\<close>
  "py_split sep [] = [[]]"
| "py_split sep (c # s) =
     (if c = sep then [] # py_split sep s
      else (case py_split sep s of w # ws \<Rightarrow> (c # w) # ws | [] \<Rightarrow> [[c]]))"

definition py_isspace :: "char \<Rightarrow> bool" where
  "py_isspace c = (of_char c \<in> {9, 10, 11, 12, 13, 28, 29, 30, 31, 32, 133, 160 :: nat})"

definition py_strip :: "string \<Rightarrow> string" where
  "py_strip s = rev (dropWhile py_isspace (rev (dropWhile py_isspace s)))"

fun title_from :: "bool \<Rightarrow> string \<Rightarrow> string" where
  \<comment> \<open>The flag says whether the previous character was a letter.\<close>
  "title_from prev [] = []"
| "title_from prev (c # s) =
     (let n = (of_char c :: nat);
          up = (65 \<le> n \<and> n \<le> 90);
          lo = (97 \<le> n \<and> n \<le> 122)
      in (if prev \<and> up then lower_char c
          else if \<not> prev \<and> lo
            then (case c of Char b0 b1 b2 b3 b4 b5 b6 b7 \<Rightarrow> Char b0 b1 b2 b3 b4 False b6 b7)
          else c) # title_from (up \<or> lo) s)"

definition py_title :: "string \<Rightarrow> string" where
  \<comment> \<open>\<^verbatim>\<open>s.title()\<close>, exact on ASCII text. bot.py applies it to a request type only.\<close>
  "py_title s = title_from False s"

subsection \<open>Integers and their decimal text\<close>

text \<open>
  Python integers are unbounded: \<^typ>\<open>int\<close>. CPython refuses conversions of more than 4300
  digits; Discord identifiers have at most 20 digits and a topic at most 1024 characters, and
  that limit is not modelled.
\<close>

definition digit_char :: "nat \<Rightarrow> char" where
  "digit_char d = ''0123456789'' ! d"

definition is_digit :: "char \<Rightarrow> bool" where
  "is_digit c = (c \<in> set ''0123456789'')"

definition digit_val :: "char \<Rightarrow> nat" where
  "digit_val c = of_char c - 48"

fun str_nat :: "nat \<Rightarrow> string" where
  "str_nat n =
     (if n div 10 = 0 then [digit_char n] else str_nat (n div 10) @ [digit_char (n mod 10)])"

declare str_nat.simps [simp del]

definition py_str :: "int \<Rightarrow> string" where
  \<comment> \<open>\<^verbatim>\<open>str(i)\<close>, also what an f-string writes for an integer.\<close>
  "py_str i = (if i < 0 then CHR ''-'' # str_nat (nat (- i)) else str_nat (nat i))"

definition int_space :: "char \<Rightarrow> bool" where
  \<comment> \<open>The blanks \<^verbatim>\<open>int\<close> skips around a number: fewer than \<^verbatim>\<open>str.strip\<close> removes.\<close>
  "int_space c = (of_char c \<in> {9, 10, 11, 12, 13, 32, 133, 160 :: nat})"

fun digits_ok :: "string \<Rightarrow> bool" where
  \<comment> \<open>Decimal digits, with single underscores allowed between two digits.\<close>
  "digits_ok [] = False"
| "digits_ok [c] = is_digit c"
| "digits_ok (c # d # s) =
     (is_digit c \<and> (if d = CHR ''_'' then digits_ok s else digits_ok (d # s)))"

definition digits_val :: "string \<Rightarrow> nat" where
  "digits_val s = foldl (\<lambda>a c. 10 * a + digit_val c) 0 (filter is_digit s)"

definition py_int :: "string \<Rightarrow> py_error + int" where
  \<comment> \<open>\<^verbatim>\<open>int(s)\<close> for a string: ValueError unless the text is a decimal integer literal.\<close>
  "py_int s =
     (let t = rev (dropWhile int_space (rev (dropWhile int_space s)));
          neg = (t \<noteq> [] \<and> hd t = CHR ''-'');
          body = (if t \<noteq> [] \<and> (hd t = CHR ''-'' \<or> hd t = CHR ''+'') then tl t else t)
      in if digits_ok body
         then Inr (if neg then - int (digits_val body) else int (digits_val body))
         else Inl ValueError)"

section \<open>Configuration store\<close>

text \<open>
  The document \<^verbatim>\<open>json.load\<close> returns. An object is the list of its bindings in file order, one
  binding per key. Arrays, booleans and fractional numbers occur nowhere in the schema and are
  not modelled.
\<close>

datatype json = JNull | JInt int | JStr string | JObj "(string \<times> json) list"

datatype config_file = NoFile | Unparsable | Parsed json

definition default_welcome_message :: string where
  "default_welcome_message =
     ''# Welcome to the Official Belgium War Era Server!'' @ nl @ nl @
     ''Greetings, traveler! You have arrived at the gates of Belgium.'' @ nl @ nl @
     ''Please select your status below to proceed with verification:''"

definition DEFAULT_CONFIG :: "(string \<times> json) list" where
  "DEFAULT_CONFIG =
     [(''welcome_channel_id'', JNull),
      (''verification_category_id'', JNull),
      (''log_channel_id'', JNull),
      (''roles'', JObj
         [(''belgian'', JNull),
          (''foreigner'', JNull),
          (''border_control'', JNull),
          (''minister_foreign_affairs'', JNull),
          (''president'', JNull),
          (''vice_president'', JNull),
          (''government'', JNull)]),
      (''welcome_message'', JStr default_welcome_message),
      (''ticket_counter'', JInt 0)]"

fun merge_defaults :: "(string \<times> json) list \<Rightarrow> (string \<times> json) list \<Rightarrow> (string \<times> json) list" where
  \<comment> \<open>\<^verbatim>\<open>for key, value in DEFAULT_CONFIG.items(): if key not in config: config[key] = value\<close>\<close>
  "merge_defaults [] config = config"
| "merge_defaults ((key, val) # defaults) config =
     merge_defaults defaults
       (if map_of config key = None then config @ [(key, val)] else config)"

definition load_config :: "config_file \<Rightarrow> py_error + json" where
  \<comment> \<open>A document that is no object: \<^verbatim>\<open>key not in config\<close> is a TypeError on null and on a
      number; on a string it is the substring test, and the assignment that follows a missing
      key is the TypeError. Text that is no JSON raises JSONDecodeError, a ValueError.\<close>
  "load_config file =
     (case file of
        NoFile \<Rightarrow> Inr (JObj DEFAULT_CONFIG)
      | Unparsable \<Rightarrow> Inl ValueError
      | Parsed (JObj config) \<Rightarrow> Inr (JObj (merge_defaults DEFAULT_CONFIG config))
      | Parsed (JStr s) \<Rightarrow>
          (if list_all (\<lambda>(key, val). py_contains key s) DEFAULT_CONFIG
           then Inr (JStr s) else Inl TypeError)
      | Parsed _ \<Rightarrow> Inl TypeError)"

definition subscript :: "json \<Rightarrow> string \<Rightarrow> py_error + json" where
  \<comment> \<open>\<^verbatim>\<open>v[key]\<close>\<close>
  "subscript v key =
     (case v of
        JObj kvs \<Rightarrow> (case map_of kvs key of None \<Rightarrow> Inl KeyError | Some x \<Rightarrow> Inr x)
      | _ \<Rightarrow> Inl TypeError)"

definition dict_get :: "json \<Rightarrow> string \<Rightarrow> py_error + json" where
  \<comment> \<open>\<^verbatim>\<open>v.get(key)\<close>\<close>
  "dict_get v key =
     (case v of
        JObj kvs \<Rightarrow> Inr (case map_of kvs key of None \<Rightarrow> JNull | Some x \<Rightarrow> x)
      | _ \<Rightarrow> Inl AttributeError)"

fun dict_set :: "'k \<Rightarrow> 'v \<Rightarrow> ('k \<times> 'v) list \<Rightarrow> ('k \<times> 'v) list" where
  \<comment> \<open>\<^verbatim>\<open>d[key] = value\<close>: a present key keeps its place, a new one goes last.\<close>
  "dict_set key val [] = [(key, val)]"
| "dict_set key val ((k, v) # d) =
     (if k = key then (key, val) # d else (k, v) # dict_set key val d)"

definition truthy :: "json \<Rightarrow> bool" where
  \<comment> \<open>\<^verbatim>\<open>if v:\<close>\<close>
  "truthy v = (case v of JNull \<Rightarrow> False | JInt n \<Rightarrow> n \<noteq> 0 | JStr s \<Rightarrow> s \<noteq> [] | JObj kvs \<Rightarrow> kvs \<noteq> [])"

definition bind_err :: "py_error + 'a \<Rightarrow> ('a \<Rightarrow> py_error + 'b) \<Rightarrow> py_error + 'b" where
  "bind_err m f = (case m of Inl e \<Rightarrow> Inl e | Inr x \<Rightarrow> f x)"

definition config_role :: "json \<Rightarrow> string \<Rightarrow> py_error + json" where
  \<comment> \<open>\<^verbatim>\<open>config["roles"][key]\<close>\<close>
  "config_role config key = bind_err (subscript config ''roles'') (\<lambda>roles. subscript roles key)"

definition save_config :: "json \<Rightarrow> config_file" where
  \<comment> \<open>\<^verbatim>\<open>json.dump(config, f)\<close>: the file now holds the document.\<close>
  "save_config config = Parsed config"

section \<open>Discord objects and the calls made to the platform\<close>

record role =
  role_id :: int
  role_name :: string
  role_mention :: string

record member =
  member_id :: int
  member_name :: string
  member_mention :: string
  display_avatar :: string
  member_role_ids :: "int list"
  administrator :: bool

text \<open>
  \<open>member_role_ids\<close> is \<^verbatim>\<open>[role.id for role in user.roles]\<close>, \<open>administrator\<close> is
  \<^verbatim>\<open>user.guild_permissions.administrator\<close>, and \<open>bot_manage_channels\<close> of a category is
  \<^verbatim>\<open>category.permissions_for(guild.me).manage_channels\<close>: values the library computes.
\<close>

record channel =
  channel_id :: int
  channel_name :: string
  channel_topic :: "string option"
  channel_mention :: string
  bot_manage_channels :: bool

record guild =
  guild_roles :: "int \<Rightarrow> role option"
  guild_members :: "int \<Rightarrow> member option"
  guild_channels :: "int \<Rightarrow> channel option"
  default_role :: role
  me :: member

record interaction =
  guild :: guild
  user :: member
  channel :: channel

definition get_by_id :: "(int \<Rightarrow> 'a option) \<Rightarrow> json \<Rightarrow> py_error + 'a option" where
  \<comment> \<open>\<^verbatim>\<open>guild.get_role(v)\<close>, \<^verbatim>\<open>guild.get_channel(v)\<close>: a dictionary lookup by identifier. None and
      a string are keys that are not there; an object cannot be hashed.\<close>
  "get_by_id table v =
     (case v of
        JNull \<Rightarrow> Inr None
      | JInt n \<Rightarrow> Inr (table n)
      | JStr s \<Rightarrow> Inr None
      | JObj kvs \<Rightarrow> Inl TypeError)"

datatype color = Green | Blue | Red

record embed =
  title :: string
  description :: string
  color :: color
  timestamp :: "nat option"
  thumbnail :: "string option"
  embed_fields :: "(string \<times> string \<times> bool) list"
  footer :: "(string \<times> string option) option"

definition new_embed :: "string \<Rightarrow> string \<Rightarrow> color \<Rightarrow> nat option \<Rightarrow> embed" where
  \<comment> \<open>\<^verbatim>\<open>discord.Embed(title=, description=, color=, timestamp=)\<close>\<close>
  "new_embed t d c ts =
     \<lparr>title = t, description = d, color = c, timestamp = ts, thumbnail = None,
      embed_fields = [], footer = None\<rparr>"

definition add_field :: "string \<Rightarrow> string \<Rightarrow> bool \<Rightarrow> embed \<Rightarrow> embed" where
  "add_field name val inline e = e\<lparr>embed_fields := embed_fields e @ [(name, val, inline)]\<rparr>"

datatype perm = ViewChannel | SendMessages | ReadMessageHistory | ManageChannels
  | ManageMessages | EmbedLinks

datatype target = RoleT int | MemberT int

type_synonym overwrites = "(target \<times> (perm \<times> bool) list) list"

text \<open>
  The platform's answer to the calls bot.py guards with \<^verbatim>\<open>try\<close>. \<open>HTTPException\<close> stands for
  every \<^verbatim>\<open>discord.HTTPException\<close> that is neither \<open>Forbidden\<close> nor \<open>NotFound\<close>; the text is
  \<^verbatim>\<open>str(e)\<close>. The sends the handlers do not guard are taken to succeed.
\<close>

datatype api_result = Done | Forbidden string | NotFound string | HTTPException string

datatype console =
    CannotPostLog            \<comment> \<open>Cannot post to log channel - missing permissions\<close>
  | FailedPostLog string     \<comment> \<open>Failed to post to log channel: {e}\<close>
  | LogChannelNotFound json  \<comment> \<open>Log channel not found: {config['log_channel_id']}\<close>
  | CouldNotDelete string    \<comment> \<open>Could not delete channel: {e}\<close>

datatype effect =
    SaveConfig json
  | Respond string
  | RespondEmbed embed
  | Send int "string option" embed
  | CreateTextChannel string "channel option" overwrites string
  | AddRoles int role
  | Print console
  | Sleep nat
  | Delete int string

text \<open>
  A handler's run: the calls it made, in order, and the exception that ended it, if one did.
  \<open>Respond\<close> and \<open>RespondEmbed\<close> are \<^verbatim>\<open>interaction.response.send_message(..., ephemeral=True)\<close>,
  \<open>Send c content e\<close> is \<^verbatim>\<open>send(content=, embed=)\<close> on the channel with identifier \<open>c\<close>.
\<close>

datatype raised = Py py_error | Discord api_result

type_synonym run = "effect list \<times> raised option"

record platform =
  now :: nat
  new_channel_id :: int
  new_channel_mention :: string
  create_result :: api_result
  add_roles_result :: api_result
  log_send_result :: api_result
  delete_result :: api_result

text \<open>
  \<open>now\<close> is the clock reading of \<^verbatim>\<open>datetime.datetime.now\<close>; \<open>new_channel_id\<close> and
  \<open>new_channel_mention\<close> describe the channel \<^verbatim>\<open>create_text_channel\<close> returns when it succeeds.
\<close>

definition try_py :: "py_error + 'a \<Rightarrow> effect list \<Rightarrow> ('a \<Rightarrow> run) \<Rightarrow> run" where
  \<comment> \<open>An uncaught Python exception ends the handler after the calls already made.\<close>
  "try_py m made k = (case m of Inl e \<Rightarrow> (made, Some (Py e)) | Inr x \<Rightarrow> k x)"

fun py_join :: "string \<Rightarrow> string list \<Rightarrow> string" where
  "py_join sep [] = []"
| "py_join sep [x] = x"
| "py_join sep (x # y # xs) = x @ sep @ py_join sep (y # xs)"

section \<open>Ticket channel creation\<close>

definition ticket_routing ::
    "json \<Rightarrow> string \<Rightarrow> int \<Rightarrow> string \<Rightarrow> py_error + (string \<times> json list \<times> color \<times> string)" where
  \<comment> \<open>bot.py 167-186: channel name, roles to notify, embed colour and request title.\<close>
  "ticket_routing config request_type ticket_id user_name =
     (if request_type = ''citizen'' then
        bind_err (config_role config ''border_control'') (\<lambda>bc.
        Inr (''citizen-'' @ py_str ticket_id @ ''-'' @ user_name, [bc], Green,
             ''Citizenship Verification Request''))
      else if request_type = ''foreigner'' then
        bind_err (config_role config ''border_control'') (\<lambda>bc.
        Inr (''foreigner-'' @ py_str ticket_id @ ''-'' @ user_name, [bc], Blue,
             ''Foreigner Verification Request''))
      else
        bind_err (config_role config ''minister_foreign_affairs'') (\<lambda>mfa.
        bind_err (config_role config ''president'') (\<lambda>pres.
        bind_err (config_role config ''vice_president'') (\<lambda>vice.
        Inr (''embassy-'' @ py_str ticket_id @ ''-'' @ user_name, [mfa, pres, vice], Red,
             ''Emergency Embassy Request'')))))"

definition sanitize :: "string \<Rightarrow> string" where
  \<comment> \<open>bot.py 189: \<^verbatim>\<open>channel_name.lower().replace(" ", "-")[:100]\<close>\<close>
  "sanitize name = take 100 (py_replace CHR '' '' ''-'' (py_lower name))"

definition ticket_topic :: "string \<Rightarrow> string \<Rightarrow> int \<Rightarrow> int \<Rightarrow> string" where
  \<comment> \<open>bot.py 243\<close>
  "ticket_topic user_name request_type ticket_id user_id =
     ''Verification request by '' @ user_name @ '' | Type: '' @ request_type @
     '' | ID: '' @ py_str ticket_id @ '' | User ID: '' @ py_str user_id"

definition member_perms :: "(perm \<times> bool) list" where
  "member_perms = [(ViewChannel, True), (SendMessages, True), (ReadMessageHistory, True)]"

definition bot_perms :: "(perm \<times> bool) list" where
  "bot_perms =
     [(ViewChannel, True), (SendMessages, True), (ManageChannels, True),
      (ManageMessages, True), (EmbedLinks, True)]"

definition base_overwrites :: "guild \<Rightarrow> member \<Rightarrow> overwrites" where
  \<comment> \<open>bot.py 198-212\<close>
  "base_overwrites g u =
     dict_set (MemberT (member_id (me g))) bot_perms
       (dict_set (MemberT (member_id u)) member_perms
          [(RoleT (role_id (default_role g)), [(ViewChannel, False)])])"

fun role_overwrites :: "guild \<Rightarrow> json list \<Rightarrow> overwrites \<Rightarrow> py_error + overwrites" where
  \<comment> \<open>bot.py 215-223\<close>
  "role_overwrites g [] ow = Inr ow"
| "role_overwrites g (rid # role_ids) ow =
     (if truthy rid then
        (case get_by_id (guild_roles g) rid of
           Inl e \<Rightarrow> Inl e
         | Inr None \<Rightarrow> role_overwrites g role_ids ow
         | Inr (Some r) \<Rightarrow> role_overwrites g role_ids (dict_set (RoleT (role_id r)) member_perms ow))
      else role_overwrites g role_ids ow)"

fun role_mentions :: "guild \<Rightarrow> json list \<Rightarrow> py_error + string list" where
  \<comment> \<open>bot.py 258-263\<close>
  "role_mentions g [] = Inr []"
| "role_mentions g (rid # role_ids) =
     (if truthy rid then
        (case get_by_id (guild_roles g) rid of
           Inl e \<Rightarrow> Inl e
         | Inr None \<Rightarrow> role_mentions g role_ids
         | Inr (Some r) \<Rightarrow> bind_err (role_mentions g role_ids) (\<lambda>ms. Inr (role_mention r # ms)))
      else role_mentions g role_ids)"

definition next_ticket :: "json \<Rightarrow> py_error + (json \<times> int)" where
  \<comment> \<open>bot.py 162-163: \<^verbatim>\<open>config["ticket_counter"] += 1; ticket_id = config["ticket_counter"]\<close>.
      Adding 1 to null, to a string or to an object is a TypeError.\<close>
  "next_ticket config =
     bind_err (subscript config ''ticket_counter'') (\<lambda>v.
       case (config, v) of
         (JObj kvs, JInt n) \<Rightarrow> Inr (JObj (dict_set ''ticket_counter'' (JInt (n + 1)) kvs), n + 1)
       | _ \<Rightarrow> Inl TypeError)"

definition find_category :: "json \<Rightarrow> guild \<Rightarrow> py_error + channel option" where
  \<comment> \<open>bot.py 192-194\<close>
  "find_category config g =
     bind_err (subscript config ''verification_category_id'') (\<lambda>v.
       if truthy v then get_by_id (guild_channels g) v else Inr None)"

definition no_category_permission :: "channel \<Rightarrow> string" where
  \<comment> \<open>bot.py 230-231\<close>
  "no_category_permission category =
     ''I don't have permission to create channels in the **'' @ channel_name category @
     ''** category.'' @ nl @ nl @
     ''**Fix:** Go to the category settings > Permissions > Add the bot role with 'Manage Channels' enabled.''"

definition create_forbidden :: "channel option \<Rightarrow> string \<Rightarrow> string" where
  \<comment> \<open>bot.py 246-253\<close>
  "create_forbidden category e =
     ''I don't have permission to create channels.'' @ nl @ nl @
     ''**Possible fixes:**'' @ nl @
     '' Ensure the bot has 'Manage Channels' permission server-wide'' @ nl @
     (case category of
        None \<Rightarrow> []
      | Some c \<Rightarrow> '' Add the bot to the **'' @ channel_name c @
          ''** category with 'Manage Channels' permission'' @ nl) @
     nl @ ''**Error:** '' @ e"

definition ticket_embed :: "platform \<Rightarrow> member \<Rightarrow> string \<Rightarrow> int \<Rightarrow> color \<Rightarrow> string \<Rightarrow> embed" where
  \<comment> \<open>bot.py 266-278\<close>
  "ticket_embed p u request_type ticket_id embed_color request_title =
     (add_field ''Instructions for Moderators''
        (''Use `/approve` to approve this request'' @ nl @ ''Use `/deny` to deny this request'')
        False
        ((new_embed ('' '' @ request_title)
            (''**User:** '' @ member_mention u @ nl @
             ''**Request Type:** '' @ py_title request_type @ nl @
             ''**Ticket ID:** #'' @ py_str ticket_id)
            embed_color (Some (now p)))
         \<lparr>thumbnail := Some (display_avatar u)\<rparr>))
     \<lparr>footer := Some (''User ID: '' @ py_str (member_id u), None)\<rparr>"

definition announce_ticket ::
    "platform \<Rightarrow> interaction \<Rightarrow> string \<Rightarrow> int \<Rightarrow> json list \<Rightarrow> color \<Rightarrow> string \<Rightarrow>
     effect list \<Rightarrow> run" where
  \<comment> \<open>bot.py 257-289, after the channel exists\<close>
  "announce_ticket p i request_type ticket_id role_ids embed_color request_title made =
     try_py (role_mentions (guild i) role_ids) made (\<lambda>mentions.
       (made @
        [Send (new_channel_id p)
           (Some (if mentions \<noteq> [] then py_join '' '' mentions else []))
           (ticket_embed p (user i) request_type ticket_id embed_color request_title),
         Respond (''Your verification channel has been created: '' @ new_channel_mention p @ nl @
                  ''Please wait for a moderator to review your request.'')],
        None))"

definition create_verification_channel ::
    "platform \<Rightarrow> config_file \<Rightarrow> interaction \<Rightarrow> string \<Rightarrow> run" where
  "create_verification_channel p file i request_type =
     try_py (load_config file) [] (\<lambda>config0.
     try_py (next_ticket config0) [] (\<lambda>(config, ticket_id).
     let made = [SaveConfig config] in
     try_py (ticket_routing config request_type ticket_id (member_name (user i))) made
       (\<lambda>(raw_name, role_ids, embed_color, request_title).
     let name = sanitize raw_name in
     try_py (find_category config (guild i)) made (\<lambda>category.
     try_py (role_overwrites (guild i) role_ids (base_overwrites (guild i) (user i))) made
       (\<lambda>overwrites.
     if (case category of None \<Rightarrow> False | Some c \<Rightarrow> \<not> bot_manage_channels c)
     then (made @ [Respond (no_category_permission (the category))], None)
     else
       let made = made @
             [CreateTextChannel name category overwrites
                (ticket_topic (member_name (user i)) request_type ticket_id (member_id (user i)))]
       in (case create_result p of
             Forbidden e \<Rightarrow> (made @ [Respond (create_forbidden category e)], None)
           | NotFound e \<Rightarrow> (made, Some (Discord (NotFound e)))
           | HTTPException e \<Rightarrow> (made, Some (Discord (HTTPException e)))
           | Done \<Rightarrow>
               announce_ticket p i request_type ticket_id role_ids embed_color request_title
                 made))))))"

definition file_after :: "config_file \<Rightarrow> effect list \<Rightarrow> config_file" where
  \<comment> \<open>What config.json holds once the calls were made.\<close>
  "file_after file made =
     foldl (\<lambda>f e. case e of SaveConfig config \<Rightarrow> save_config config | _ \<Rightarrow> f) file made"

section \<open>Moderation commands\<close>

definition ticket_prefixes :: "string list" where
  "ticket_prefixes = [''citizen-'', ''foreigner-'', ''embassy-'']"

definition get_mod_roles :: "json \<Rightarrow> py_error + json list" where
  \<comment> \<open>bot.py 607-612 and 767-772\<close>
  "get_mod_roles config =
     bind_err (config_role config ''border_control'') (\<lambda>bc.
     bind_err (config_role config ''minister_foreign_affairs'') (\<lambda>mfa.
     bind_err (config_role config ''president'') (\<lambda>pres.
     bind_err (config_role config ''vice_president'') (\<lambda>vice.
     Inr [bc, mfa, pres, vice]))))"

definition py_in :: "json \<Rightarrow> int list \<Rightarrow> bool" where
  \<comment> \<open>\<^verbatim>\<open>v in ids\<close> for a list of integers: only an equal integer is found.\<close>
  "py_in v ids = (case v of JInt n \<Rightarrow> n \<in> set ids | _ \<Rightarrow> False)"

definition has_permission :: "json list \<Rightarrow> int list \<Rightarrow> bool" where
  \<comment> \<open>bot.py 615: \<^verbatim>\<open>any(role_id in user_role_ids for role_id in mod_roles if role_id)\<close>\<close>
  "has_permission mod_roles user_role_ids =
     list_ex (\<lambda>rid. py_in rid user_role_ids) (filter truthy mod_roles)"

definition scan_part :: "int option \<Rightarrow> string \<Rightarrow> int option" where
  \<comment> \<open>bot.py 628-632, the body of the loop: a ValueError leaves \<^verbatim>\<open>user_id\<close> as it was.\<close>
  "scan_part user_id part =
     (if py_contains ''User ID:'' part then
        (case py_int (py_strip (last (py_split CHR '':'' part))) of
           Inr n \<Rightarrow> Some n
         | Inl e \<Rightarrow> user_id)
      else user_id)"

definition topic_user_id :: "string option \<Rightarrow> int option" where
  \<comment> \<open>bot.py 625-632 and 785-792\<close>
  "topic_user_id t =
     foldl scan_part None (py_split CHR ''|'' (case t of None \<Rightarrow> [] | Some s \<Rightarrow> s))"

definition id_given :: "int option \<Rightarrow> bool" where
  \<comment> \<open>\<^verbatim>\<open>if user_id:\<close> holds for an integer other than 0.\<close>
  "id_given user_id = (case user_id of None \<Rightarrow> False | Some n \<Rightarrow> n \<noteq> 0)"

definition request_type_of :: "string \<Rightarrow> string" where
  \<comment> \<open>bot.py 650 and 795: \<^verbatim>\<open>channel.name.split("-")[0]\<close>\<close>
  "request_type_of name = hd (py_split CHR ''-'' name)"

definition role_for :: "json \<Rightarrow> guild \<Rightarrow> string \<Rightarrow> py_error + role option" where
  \<comment> \<open>bot.py 651-657\<close>
  "role_for config g request_type =
     (if request_type = ''citizen'' then
        bind_err (config_role config ''belgian'') (get_by_id (guild_roles g))
      else if request_type = ''foreigner'' then
        bind_err (config_role config ''foreigner'') (get_by_id (guild_roles g))
      else Inr None)"

definition with_role_field :: "role option \<Rightarrow> bool \<Rightarrow> embed \<Rightarrow> embed" where
  \<comment> \<open>bot.py 684-685 and 709-710\<close>
  "with_role_field role_to_give inline e =
     (case role_to_give of
        None \<Rightarrow> e
      | Some r \<Rightarrow> add_field ''Role Granted'' (role_mention r) inline e)"

definition deletion_notice :: string where
  "deletion_notice = ''This channel will be deleted in 30 seconds.''"

definition approve_user_embed :: "string \<Rightarrow> role option \<Rightarrow> embed" where
  \<comment> \<open>bot.py 679-686\<close>
  "approve_user_embed request_type role_to_give =
     (with_role_field role_to_give False
        (new_embed '' Request Approved!''
           (''Your '' @ request_type @ '' verification request has been approved!'')
           Green None))
     \<lparr>footer := Some (deletion_notice, None)\<rparr>"

definition approve_log_embed ::
    "platform \<Rightarrow> member \<Rightarrow> member \<Rightarrow> string \<Rightarrow> string \<Rightarrow> role option \<Rightarrow> embed" where
  \<comment> \<open>bot.py 696-710\<close>
  "approve_log_embed p actor m request_type reason role_to_give =
     with_role_field role_to_give True
       ((new_embed '' Verification Approved''
           (''**User:** '' @ member_mention m @ '' ('' @ member_name m @ '')'' @ nl @
            ''**Type:** '' @ py_title request_type @ nl @
            ''**Reason:** '' @ reason)
           Green (Some (now p)))
        \<lparr>thumbnail := Some (display_avatar m),
         footer := Some (''Approved by '' @ member_name actor, Some (display_avatar actor))\<rparr>)"

definition post_log :: "platform \<Rightarrow> json \<Rightarrow> guild \<Rightarrow> embed \<Rightarrow> py_error + (effect list \<times> bool)" where
  \<comment> \<open>bot.py 691-718 and 811-838: the calls made and the final \<^verbatim>\<open>log_posted\<close>.\<close>
  "post_log p config g log_embed =
     bind_err (dict_get config ''log_channel_id'') (\<lambda>v.
       if truthy v then
         bind_err (get_by_id (guild_channels g) v) (\<lambda>log_channel.
           case log_channel of
             None \<Rightarrow> Inr ([Print (LogChannelNotFound v)], False)
           | Some c \<Rightarrow>
               (case log_send_result p of
                  Done \<Rightarrow> Inr ([Send (channel_id c) None log_embed], True)
                | Forbidden e \<Rightarrow>
                    Inr ([Send (channel_id c) None log_embed, Print CannotPostLog], False)
                | NotFound e \<Rightarrow>
                    Inr ([Send (channel_id c) None log_embed, Print (FailedPostLog e)], False)
                | HTTPException e \<Rightarrow>
                    Inr ([Send (channel_id c) None log_embed, Print (FailedPostLog e)], False)))
       else Inr ([], False))"

definition with_warning :: "json \<Rightarrow> bool \<Rightarrow> embed \<Rightarrow> py_error + embed" where
  \<comment> \<open>bot.py 729-730 and 851-852\<close>
  "with_warning config log_posted e =
     (if \<not> log_posted then
        bind_err (dict_get config ''log_channel_id'') (\<lambda>v.
          Inr (if truthy v
               then add_field '' Warning'' ''Could not post to log channel'' False e
               else e))
      else Inr e)"

definition delete_later :: "platform \<Rightarrow> interaction \<Rightarrow> string \<Rightarrow> effect list \<Rightarrow> run" where
  \<comment> \<open>bot.py 735-739 and 857-861: only NotFound and Forbidden are caught.\<close>
  "delete_later p i why made =
     (let made = made @ [Sleep 30, Delete (channel_id (channel i)) why]
      in case delete_result p of
           Done \<Rightarrow> (made, None)
         | NotFound e \<Rightarrow> (made @ [Print (CouldNotDelete e)], None)
         | Forbidden e \<Rightarrow> (made @ [Print (CouldNotDelete e)], None)
         | HTTPException e \<Rightarrow> (made, Some (Discord (HTTPException e))))"

definition approve_mod_embed :: "member \<Rightarrow> member \<Rightarrow> string \<Rightarrow> string \<Rightarrow> embed" where
  \<comment> \<open>bot.py 721-726\<close>
  "approve_mod_embed actor m request_type reason =
     (new_embed '' Approval Logged''
        (''**User:** '' @ member_mention m @ nl @
         ''**Type:** '' @ request_type @ nl @
         ''**Reason:** '' @ reason)
        Green None)
     \<lparr>footer := Some (''Approved by '' @ member_name actor, None)\<rparr>"

definition approve_decided ::
    "platform \<Rightarrow> json \<Rightarrow> interaction \<Rightarrow> string \<Rightarrow> member \<Rightarrow> string \<Rightarrow> role option \<Rightarrow>
     effect list \<Rightarrow> run" where
  \<comment> \<open>bot.py 678-739: the role, if any, has been granted.\<close>
  "approve_decided p config i reason m request_type role_to_give made =
     (let made = made @
            [Send (channel_id (channel i)) (Some (member_mention m))
               (approve_user_embed request_type role_to_give)]
      in try_py (post_log p config (guild i)
                   (approve_log_embed p (user i) m request_type reason role_to_give)) made
           (\<lambda>(logged, log_posted).
         let made = made @ logged
         in try_py (with_warning config log_posted
                      (approve_mod_embed (user i) m request_type reason)) made
              (\<lambda>mod_embed.
            delete_later p i (''Verification approved by '' @ member_name (user i))
              (made @ [RespondEmbed mod_embed]))))"

definition not_a_ticket :: string where
  "not_a_ticket = ''This command can only be used in verification channels.''"

definition no_permission :: string where
  "no_permission = ''You don't have permission to use this command.''"

definition user_not_found :: string where
  "user_not_found = ''Could not find the user for this request. Please check manually.''"

definition user_left :: string where
  "user_left = ''The user is no longer in the server.''"

definition cannot_assign :: "role \<Rightarrow> string" where
  \<comment> \<open>bot.py 666-667\<close>
  "cannot_assign r =
     ''I don't have permission to assign the '' @ role_name r @ '' role. '' @
     ''Make sure my bot role is **higher** than this role in Server Settings > Roles.''"

definition approve :: "platform \<Rightarrow> config_file \<Rightarrow> interaction \<Rightarrow> string \<Rightarrow> run" where
  "approve p file i reason =
     try_py (load_config file) [] (\<lambda>config.
     if \<not> py_startswith (channel_name (channel i)) ticket_prefixes
     then ([Respond not_a_ticket], None)
     else
     try_py (get_mod_roles config) [] (\<lambda>mod_roles.
     if \<not> has_permission mod_roles (member_role_ids (user i)) \<and> \<not> administrator (user i)
     then ([Respond no_permission], None)
     else
     let user_id = topic_user_id (channel_topic (channel i)) in
     if \<not> id_given user_id
     then ([Respond user_not_found], None)
     else
     (case guild_members (guild i) (the user_id) of
        None \<Rightarrow> ([Respond user_left], None)
      | Some m \<Rightarrow>
          let request_type = request_type_of (channel_name (channel i)) in
          try_py (role_for config (guild i) request_type) [] (\<lambda>role_to_give.
          (case role_to_give of
             None \<Rightarrow> approve_decided p config i reason m request_type None []
           | Some r \<Rightarrow>
               (case add_roles_result p of
                  Done \<Rightarrow>
                    approve_decided p config i reason m request_type (Some r)
                      [AddRoles (member_id m) r]
                | Forbidden e \<Rightarrow>
                    ([AddRoles (member_id m) r, Respond (cannot_assign r)], None)
                | NotFound e \<Rightarrow>
                    ([AddRoles (member_id m) r, Respond (''Failed to assign role: '' @ e)], None)
                | HTTPException e \<Rightarrow>
                    ([AddRoles (member_id m) r, Respond (''Failed to assign role: '' @ e)],
                     None)))))))"

definition deny_user_embed :: "string \<Rightarrow> embed" where
  \<comment> \<open>bot.py 798-803\<close>
  "deny_user_embed request_type =
     (new_embed '' Request Denied''
        (''Your '' @ request_type @ '' verification request has been denied.'')
        Red None)
     \<lparr>footer := Some (deletion_notice, None)\<rparr>"

definition deny_log_embed ::
    "platform \<Rightarrow> member \<Rightarrow> member option \<Rightarrow> string \<Rightarrow> string \<Rightarrow> embed" where
  \<comment> \<open>bot.py 816-830\<close>
  "deny_log_embed p actor m request_type reason =
     (new_embed '' Verification Denied''
        (''**User:** '' @ (case m of Some x \<Rightarrow> member_mention x | None \<Rightarrow> ''Unknown'') @
         '' ('' @ (case m of Some x \<Rightarrow> member_name x | None \<Rightarrow> ''Unknown'') @ '')'' @ nl @
         ''**Type:** '' @ py_title request_type @ nl @
         ''**Reason:** '' @ reason)
        Red (Some (now p)))
     \<lparr>thumbnail := (case m of Some x \<Rightarrow> Some (display_avatar x) | None \<Rightarrow> None),
      footer := Some (''Denied by '' @ member_name actor, Some (display_avatar actor))\<rparr>"

definition deny_mod_embed :: "member \<Rightarrow> member option \<Rightarrow> string \<Rightarrow> string \<Rightarrow> embed" where
  \<comment> \<open>bot.py 841-848\<close>
  "deny_mod_embed actor m request_type reason =
     (new_embed '' Denial Logged''
        (''**User:** '' @ (case m of Some x \<Rightarrow> member_mention x | None \<Rightarrow> ''Unknown'') @ nl @
         ''**Type:** '' @ request_type @ nl @
         ''**Reason:** '' @ reason)
        Red None)
     \<lparr>footer := Some (''Denied by '' @ member_name actor, None)\<rparr>"

definition deny_decided ::
    "platform \<Rightarrow> json \<Rightarrow> interaction \<Rightarrow> string \<Rightarrow> member option \<Rightarrow> string \<Rightarrow> run" where
  \<comment> \<open>bot.py 797-861: \<open>m\<close> is the requester if the topic named a member of the server.\<close>
  "deny_decided p config i reason m request_type =
     (let made = [Send (channel_id (channel i))
                    (case m of Some x \<Rightarrow> Some (member_mention x) | None \<Rightarrow> None)
                    (deny_user_embed request_type)]
      in try_py (post_log p config (guild i) (deny_log_embed p (user i) m request_type reason))
           made (\<lambda>(logged, log_posted).
         let made = made @ logged
         in try_py (with_warning config log_posted
                      (deny_mod_embed (user i) m request_type reason)) made
              (\<lambda>mod_embed.
            delete_later p i (''Verification denied by '' @ member_name (user i))
              (made @ [RespondEmbed mod_embed]))))"

definition deny :: "platform \<Rightarrow> config_file \<Rightarrow> interaction \<Rightarrow> string \<Rightarrow> run" where
  "deny p file i reason =
     try_py (load_config file) [] (\<lambda>config.
     if \<not> py_startswith (channel_name (channel i)) ticket_prefixes
     then ([Respond not_a_ticket], None)
     else
     try_py (get_mod_roles config) [] (\<lambda>mod_roles.
     if \<not> has_permission mod_roles (member_role_ids (user i)) \<and> \<not> administrator (user i)
     then ([Respond no_permission], None)
     else
     let user_id = topic_user_id (channel_topic (channel i));
         m = (if id_given user_id then guild_members (guild i) (the user_id) else None);
         request_type = request_type_of (channel_name (channel i))
     in deny_decided p config i reason m request_type))"

section \<open>A small server, for concrete runs\<close>

definition request_types :: "string list" where
  "request_types = [''citizen'', ''foreigner'', ''embassy'']"

definition belgian_role :: role where
  "belgian_role = \<lparr>role_id = 11, role_name = ''Belgian'', role_mention = ''<@&11>''\<rparr>"

definition border_role :: role where
  "border_role = \<lparr>role_id = 13, role_name = ''Border Control'', role_mention = ''<@&13>''\<rparr>"

definition minister_role :: role where
  "minister_role = \<lparr>role_id = 14, role_name = ''Minister'', role_mention = ''<@&14>''\<rparr>"

definition everyone_role :: role where
  "everyone_role = \<lparr>role_id = 1, role_name = ''@everyone'', role_mention = ''@everyone''\<rparr>"

definition alice :: member where
  "alice =
     \<lparr>member_id = 501, member_name = ''Alice'', member_mention = ''<@501>'',
      display_avatar = ''alice.png'', member_role_ids = [1], administrator = False\<rparr>"

definition bob :: member where
  "bob =
     \<lparr>member_id = 502, member_name = ''bob'', member_mention = ''<@502>'',
      display_avatar = ''bob.png'', member_role_ids = [1, 13], administrator = False\<rparr>"

definition bot_member :: member where
  "bot_member =
     \<lparr>member_id = 500, member_name = ''gatekeeper'', member_mention = ''<@500>'',
      display_avatar = ''bot.png'', member_role_ids = [1], administrator = False\<rparr>"

definition log_chan :: channel where
  "log_chan =
     \<lparr>channel_id = 70, channel_name = ''decisions'', channel_topic = None,
      channel_mention = ''<#70>'', bot_manage_channels = True\<rparr>"

definition locked_category :: channel where
  "locked_category =
     \<lparr>channel_id = 80, channel_name = ''Tickets'', channel_topic = None,
      channel_mention = ''<#80>'', bot_manage_channels = False\<rparr>"

definition demo_guild :: guild where
  "demo_guild =
     \<lparr>guild_roles = (\<lambda>n. if n = 11 then Some belgian_role
                         else if n = 13 then Some border_role
                         else if n = 14 then Some minister_role else None),
      guild_members = (\<lambda>n. if n = 501 then Some alice else if n = 502 then Some bob else None),
      guild_channels = (\<lambda>n. if n = 70 then Some log_chan
                            else if n = 80 then Some locked_category else None),
      default_role = everyone_role, me = bot_member\<rparr>"

definition demo_roles :: json where
  "demo_roles =
     JObj [(''belgian'', JInt 11), (''foreigner'', JNull), (''border_control'', JInt 13),
           (''minister_foreign_affairs'', JInt 14), (''president'', JNull),
           (''vice_president'', JNull), (''government'', JNull)]"

definition demo_file :: config_file where
  \<comment> \<open>Log channel 70, no category, three tickets issued so far.\<close>
  "demo_file =
     Parsed (JObj [(''log_channel_id'', JInt 70), (''roles'', demo_roles),
                   (''ticket_counter'', JInt 3)])"

definition quiet_file :: config_file where
  \<comment> \<open>The same server with no log channel and a category the bot may not manage.\<close>
  "quiet_file =
     Parsed (JObj [(''verification_category_id'', JInt 80), (''roles'', demo_roles),
                   (''ticket_counter'', JInt 3)])"

definition partial_roles_file :: config_file where
  \<comment> \<open>A file whose \<^verbatim>\<open>roles\<close> object names one role only.\<close>
  "partial_roles_file = Parsed (JObj [(''roles'', JObj [(''belgian'', JInt 11)])])"

definition ok_platform :: platform where
  "ok_platform =
     \<lparr>now = 0, new_channel_id = 90, new_channel_mention = ''<#90>'', create_result = Done,
      add_roles_result = Done, log_send_result = Done, delete_result = Done\<rparr>"

definition lobby :: channel where
  "lobby =
     \<lparr>channel_id = 60, channel_name = ''welcome'', channel_topic = None,
      channel_mention = ''<#60>'', bot_manage_channels = True\<rparr>"

definition ticket_chan :: "string \<Rightarrow> string option \<Rightarrow> channel" where
  "ticket_chan name topic =
     \<lparr>channel_id = 90, channel_name = name, channel_topic = topic,
      channel_mention = ''<#90>'', bot_manage_channels = True\<rparr>"

definition alice_topic :: string where
  "alice_topic = ''Verification request by Alice | Type: citizen | ID: 4 | User ID: 501''"

definition in_channel :: "member \<Rightarrow> channel \<Rightarrow> interaction" where
  "in_channel u c = \<lparr>guild = demo_guild, user = u, channel = c\<rparr>"

definition demo_config :: json where
  "demo_config =
     JObj (merge_defaults DEFAULT_CONFIG
       [(''log_channel_id'', JInt 70), (''roles'', demo_roles), (''ticket_counter'', JInt 3)])"

definition quiet_config :: json where
  "quiet_config =
     JObj (merge_defaults DEFAULT_CONFIG
       [(''verification_category_id'', JInt 80), (''roles'', demo_roles),
        (''ticket_counter'', JInt 3)])"

definition alice_ticket :: channel where
  "alice_ticket = ticket_chan ''citizen-4-alice'' (Some alice_topic)"

definition spec_channel_name :: "string \<Rightarrow> int \<Rightarrow> string \<Rightarrow> string" where
  \<comment> \<open>The channel name in the specification's words: the pattern
      \<^verbatim>\<open>{type}-{ticketId}-{username}\<close>, lowercased, every space replaced by a hyphen, cut to
      100 characters.\<close>
  "spec_channel_name request_type ticket_id user_name =
     take 100
       (map (\<lambda>c. if c = CHR '' '' then CHR ''-'' else c)
          (map lower_char (request_type @ ''-'' @ py_str ticket_id @ ''-'' @ user_name)))"

definition demo_overwrites :: overwrites where
  "demo_overwrites =
     [(RoleT 1, [(ViewChannel, False)]),
      (MemberT 501, member_perms),
      (MemberT 500, bot_perms),
      (RoleT 13, member_perms)]"

definition quiet_saved :: json where
  \<comment> \<open>\<open>quiet_config\<close> with the counter moved from 3 to 4.\<close>
  "quiet_saved =
     JObj (dict_set ''ticket_counter'' (JInt 4)
       (merge_defaults DEFAULT_CONFIG
          [(''verification_category_id'', JInt 80), (''roles'', demo_roles),
           (''ticket_counter'', JInt 3)]))"

definition strict_platform :: platform where
  \<comment> \<open>The platform refuses the role change: the bot's role is below the role to grant.\<close>
  "strict_platform = ok_platform\<lparr>add_roles_result := Forbidden ''Missing Permissions''\<rparr>"

definition bare_ticket :: channel where
  \<comment> \<open>A ticket channel whose topic was cleared.\<close>
  "bare_ticket = ticket_chan ''citizen-4-alice'' None"




section \<open>Authorization\<close>

lemma load_demo_file: "load_config demo_file = Inr demo_config"
  by (simp add: load_config_def demo_file_def demo_config_def)

lemma load_quiet_file: "load_config quiet_file = Inr quiet_config"
  by (simp add: load_config_def quiet_file_def quiet_config_def)

lemma demo_mod_roles: "get_mod_roles demo_config = Inr [JInt 13, JInt 14, JNull, JNull]"
  by (simp add: get_mod_roles_def config_role_def subscript_def bind_err_def DEFAULT_CONFIG_def
      demo_roles_def demo_config_def)


lemma alice_ticket_is_ticket:
  "py_startswith (channel_name (channel (in_channel u alice_ticket))) ticket_prefixes"
  by (simp add: py_startswith_def ticket_prefixes_def in_channel_def ticket_chan_def
      alice_ticket_def)

lemma has_permission_none:
  assumes "\<forall>rid\<in>set mod_roles. \<forall>n. rid = JInt n \<longrightarrow> n \<notin> set ids"
  shows "\<not> has_permission mod_roles ids"
  using assms by (auto simp: has_permission_def py_in_def list_ex_iff split: json.splits)

text \<open>
  Claim C2. Inside a ticket channel, with the four moderator role keys present in the loaded
  configuration, an actor who holds none of the configured role identifiers and is no
  administrator gets the permission message from \<open>approve\<close> and from \<open>deny\<close>, and the handler
  makes no other call, whatever the reason text and the platform's answers.
\<close>

theorem unauthorized_rejected:
  assumes "load_config file = Inr config"
    and "get_mod_roles config = Inr mod_roles"
    and "py_startswith (channel_name (channel i)) ticket_prefixes"
    and "\<forall>rid\<in>set mod_roles. \<forall>n. rid = JInt n \<longrightarrow> n \<notin> set (member_role_ids (user i))"
    and "\<not> administrator (user i)"
  shows "approve p file i reason = ([Respond no_permission], None)
       \<and> deny p file i reason = ([Respond no_permission], None)"
proof -
  have "\<not> has_permission mod_roles (member_role_ids (user i))"
    using assms(4) by (rule has_permission_none)
  with assms show ?thesis
    by (simp add: approve_def deny_def try_py_def)
qed

theorem unauthorized_rejected_witness:
  "approve ok_platform demo_file (in_channel alice alice_ticket) ''let me in''
     = ([Respond no_permission], None)
   \<and> deny ok_platform demo_file (in_channel alice alice_ticket) ''let me in''
     = ([Respond no_permission], None)"
proof -
  have r: "\<forall>rid\<in>set [JInt 13, JInt 14, JNull, JNull].
             \<forall>n. rid = JInt n \<longrightarrow> n \<notin> set (member_role_ids (user (in_channel alice alice_ticket)))"
    by (simp add: in_channel_def alice_def)
  have a: "\<not> administrator (user (in_channel alice alice_ticket))"
    by (simp add: in_channel_def alice_def)
  show ?thesis
    using unauthorized_rejected [OF load_demo_file demo_mod_roles alice_ticket_is_ticket r a]
    by simp
qed

section \<open>Decimal text of integers\<close>

lemma digit_char_props: "d < 10 \<Longrightarrow> is_digit (digit_char d) \<and> digit_val (digit_char d) = d"
proof -
  assume "d < 10"
  then consider "d = 0" | "d = 1" | "d = 2" | "d = 3" | "d = 4" | "d = 5" | "d = 6" | "d = 7" | "d = 8" | "d = 9"
    by atomize_elim arith
  then show ?thesis
    by cases (simp_all add: digit_char_def is_digit_def digit_val_def)
qed

lemma str_nat_digits: "c \<in> set (str_nat n) \<Longrightarrow> is_digit c"
proof (induction n arbitrary: c rule: str_nat.induct)
  case (1 n)
  show ?case
  proof (cases "n div 10 = 0")
    case True
    then have "n < 10" by simp
    with True 1(2) show ?thesis
      by (subst (asm) str_nat.simps) (simp add: digit_char_props)
  next
    case False
    have "n mod 10 < 10" by simp
    then have "is_digit (digit_char (n mod 10))" by (simp add: digit_char_props)
    with False 1 show ?thesis
      by (subst (asm) (2) str_nat.simps) auto
  qed
qed

lemma str_nat_nonempty: "str_nat n \<noteq> []"
  by (subst str_nat.simps) simp

lemma digits_ok_all: "s \<noteq> [] \<Longrightarrow> \<forall>c\<in>set s. is_digit c \<Longrightarrow> digits_ok s"
proof (induction s rule: digits_ok.induct)
  case 1
  then show ?case by simp
next
  case (2 c)
  then show ?case by simp
next
  case (3 c d s)
  then have "d \<noteq> CHR ''_''" by (auto simp: is_digit_def)
  with 3 show ?case by simp
qed

lemma digits_val_snoc:
  "is_digit c \<Longrightarrow> digits_val (s @ [c]) = 10 * digits_val s + digit_val c"
  by (simp add: digits_val_def)

lemma digits_val_str_nat: "digits_val (str_nat n) = n"
proof (induction n rule: str_nat.induct)
  case (1 n)
  show ?case
  proof (cases "n div 10 = 0")
    case True
    then have "n < 10" by simp
    with True show ?thesis
      by (subst str_nat.simps) (simp add: digits_val_def digit_char_props)
  next
    case False
    have "n mod 10 < 10" by simp
    with False 1 show ?thesis
      by (subst str_nat.simps) (simp add: digits_val_snoc digit_char_props)
  qed
qed

lemma digit_plain:
  "is_digit c \<Longrightarrow> \<not> py_isspace c \<and> \<not> int_space c \<and> c \<noteq> CHR ''-'' \<and> c \<noteq> CHR ''+''
     \<and> c \<noteq> CHR ''|'' \<and> c \<noteq> CHR '':''"
  by (auto simp: is_digit_def py_isspace_def int_space_def)

lemma strip_fixed:
  assumes "s \<noteq> []" "\<not> P (hd s)" "\<not> P (last s)"
  shows "rev (dropWhile P (rev (dropWhile P s))) = s"
proof -
  have "dropWhile P s = s" using assms(1,2) by (cases s) simp_all
  moreover have "dropWhile P (rev s) = rev s"
    using assms(1,3) by (cases "rev s") (simp_all add: last_rev [symmetric] hd_rev)
  ultimately show ?thesis by simp
qed

lemma str_nat_ends: "is_digit (hd (str_nat n)) \<and> is_digit (last (str_nat n))"
  using str_nat_digits [of _ n] str_nat_nonempty [of n] by (simp add: hd_in_set)

lemma py_int_str_nat: "py_int (str_nat n) = Inr (int n)"
proof -
  have e: "str_nat n \<noteq> []" by (rule str_nat_nonempty)
  have h: "is_digit (hd (str_nat n))" and l: "is_digit (last (str_nat n))"
    using str_nat_ends by simp_all
  have s: "rev (dropWhile int_space (rev (dropWhile int_space (str_nat n)))) = str_nat n"
    using e h l by (intro strip_fixed) (simp_all add: digit_plain)
  have ok: "digits_ok (str_nat n)"
    using e str_nat_digits by (intro digits_ok_all) auto
  show ?thesis
    using e h ok by (simp add: py_int_def s Let_def digit_plain digits_val_str_nat)
qed

lemma py_int_minus_str_nat: "py_int (CHR ''-'' # str_nat n) = Inr (- int n)"
proof -
  have e: "str_nat n \<noteq> []" by (rule str_nat_nonempty)
  have "\<not> int_space (last (str_nat n))" using str_nat_ends digit_plain by simp
  then have l: "\<not> int_space (last (CHR ''-'' # str_nat n))" using e by simp
  have m: "\<not> int_space (hd (CHR ''-'' # str_nat n))" by (simp add: int_space_def)
  have s: "rev (dropWhile int_space (rev (dropWhile int_space (CHR ''-'' # str_nat n))))
             = CHR ''-'' # str_nat n"
    by (rule strip_fixed [OF _ m l]) simp
  have ok: "digits_ok (str_nat n)"
    using e str_nat_digits by (intro digits_ok_all) auto
  show ?thesis
    unfolding py_int_def s Let_def using ok by (simp add: digits_val_str_nat)
qed

lemma py_int_py_str: "py_int (py_str i) = Inr i"
  by (cases "i < 0") (simp_all add: py_str_def py_int_str_nat py_int_minus_str_nat)

lemma py_str_chars: "c \<in> set (py_str i) \<Longrightarrow> is_digit c \<or> c = CHR ''-''"
  by (auto simp: py_str_def dest: str_nat_digits split: if_splits)

lemma py_str_nonempty: "py_str i \<noteq> []"
  by (simp add: py_str_def str_nat_nonempty)

lemma sign_plain:
  "is_digit c \<or> c = CHR ''-'' \<Longrightarrow> \<not> py_isspace c \<and> c \<noteq> CHR ''|'' \<and> c \<noteq> CHR '':''"
  by (auto simp: is_digit_def py_isspace_def)

lemma py_strip_py_str: "py_strip (CHR '' '' # py_str i) = py_str i"
proof -
  have "hd (py_str i) \<in> set (py_str i)" "last (py_str i) \<in> set (py_str i)"
    using py_str_nonempty by simp_all
  then have h: "\<not> py_isspace (hd (py_str i))" and l: "\<not> py_isspace (last (py_str i))"
    using py_str_chars sign_plain by blast+
  have "dropWhile py_isspace (CHR '' '' # py_str i) = dropWhile py_isspace (py_str i)"
    by (simp add: py_isspace_def)
  then show ?thesis
    using strip_fixed [OF py_str_nonempty h l]
    by (simp add: py_strip_def del: dropWhile.simps)
qed

section \<open>Splitting, and reading a ticket back\<close>

lemma py_split_nonempty: "py_split sep s \<noteq> []"
  by (induction s) (auto split: list.splits)

lemma py_split_no_sep: "sep \<notin> set s \<Longrightarrow> py_split sep s = [s]"
  by (induction s) auto

lemma py_split_append:
  "py_split sep (xs @ sep # ys) = py_split sep xs @ py_split sep ys"
proof (induction xs)
  case Nil
  show ?case by simp
next
  case (Cons c xs)
  obtain w ws where "py_split sep xs = w # ws"
    using py_split_nonempty by (cases "py_split sep xs") auto
  with Cons show ?case by simp
qed

lemma py_str_no_bar: "CHR ''|'' \<notin> set (py_str i)"
  using py_str_chars sign_plain by blast

lemma py_str_no_colon: "CHR '':'' \<notin> set (py_str i)"
  using py_str_chars sign_plain by blast

lemma scan_last_part: "scan_part u ('' User ID: '' @ py_str n) = Some n"
proof -
  have c: "py_contains ''User ID:'' ('' User ID: '' @ py_str n)"
    by simp
  have "'' User ID: '' @ py_str n = '' User ID'' @ CHR '':'' # (CHR '' '' # py_str n)"
    by simp
  then have "py_split CHR '':'' ('' User ID: '' @ py_str n)
      = py_split CHR '':'' '' User ID'' @ py_split CHR '':'' (CHR '' '' # py_str n)"
    by (simp only: py_split_append)
  moreover have "py_split CHR '':'' (CHR '' '' # py_str n) = [CHR '' '' # py_str n]"
    by (rule py_split_no_sep) (simp add: py_str_no_colon)
  ultimately have l: "last (py_split CHR '':'' ('' User ID: '' @ py_str n)) = CHR '' '' # py_str n"
    by simp
  show ?thesis
    unfolding scan_part_def l py_strip_py_str py_int_py_str using c by simp
qed

lemma topic_user_id_created:
  "topic_user_id (Some (ticket_topic user_name request_type ticket_id user_id)) = Some user_id"
proof -
  define front where "front = ''Verification request by '' @ user_name @ '' | Type: '' @
     request_type @ '' | ID: '' @ py_str ticket_id @ '' ''"
  define rear where "rear = '' User ID: '' @ py_str user_id"
  have "ticket_topic user_name request_type ticket_id user_id = front @ CHR ''|'' # rear"
    by (simp add: ticket_topic_def front_def rear_def)
  then have "py_split CHR ''|'' (ticket_topic user_name request_type ticket_id user_id)
      = py_split CHR ''|'' front @ py_split CHR ''|'' rear"
    by (simp only: py_split_append)
  moreover have "py_split CHR ''|'' rear = [rear]"
    unfolding rear_def by (rule py_split_no_sep) (simp add: py_str_no_bar)
  moreover have "scan_part u rear = Some user_id" for u
    unfolding rear_def by (rule scan_last_part)
  ultimately show ?thesis
    by (simp only: topic_user_id_def option.case foldl_append foldl.simps)
qed

lemma py_replace_char: "py_replace c [d] s = map (\<lambda>x. if x = c then d else x) s"
  by (induction s) (simp_all add: py_replace_def)

lemma sanitize_prefix:
  assumes "rt \<in> set request_types"
  shows "py_startswith (sanitize (rt @ ''-'' @ rest)) ticket_prefixes
       \<and> request_type_of (sanitize (rt @ ''-'' @ rest)) = rt"
proof -
  consider "rt = ''citizen''" | "rt = ''foreigner''" | "rt = ''embassy''"
    using assms by (auto simp: request_types_def)
  then show ?thesis
    by cases
      (simp_all add: sanitize_def py_lower_def py_replace_char lower_char_def py_startswith_def
        ticket_prefixes_def request_type_of_def split: list.splits)
qed

section \<open>Names and topics of created channels\<close>

lemma created_channel:
  assumes "CreateTextChannel name cat ow topic \<in> set (fst (create_verification_channel p file i rt))"
  shows "\<exists>config0 config tid raw role_ids col ttl.
           load_config file = Inr config0 \<and> next_ticket config0 = Inr (config, tid) \<and>
           ticket_routing config rt tid (member_name (user i)) = Inr (raw, role_ids, col, ttl) \<and>
           name = sanitize raw \<and>
           topic = ticket_topic (member_name (user i)) rt tid (member_id (user i))"
  using assms
  by (auto simp: create_verification_channel_def try_py_def announce_ticket_def Let_def
      split: sum.splits prod.splits if_splits api_result.splits option.splits)

lemma routing_name:
  assumes "rt \<in> set request_types"
    and "ticket_routing config rt tid un = Inr (raw, role_ids, col, ttl)"
  shows "raw = rt @ ''-'' @ py_str tid @ ''-'' @ un"
  using assms
  by (auto simp: ticket_routing_def request_types_def bind_err_def split: sum.splits if_splits)

lemma next_ticket_counter:
  assumes "next_ticket config0 = Inr (config, tid)"
  shows "\<exists>kvs n. config0 = JObj kvs \<and> subscript config0 ''ticket_counter'' = Inr (JInt n) \<and>
           tid = n + 1 \<and> config = JObj (dict_set ''ticket_counter'' (JInt (n + 1)) kvs)"
  using assms
  by (auto simp: next_ticket_def bind_err_def split: sum.splits json.splits)

lemma map_of_dict_set: "map_of (dict_set k v d) = (map_of d)(k \<mapsto> v)"
  by (induction d) (auto simp: fun_eq_iff)

lemma sanitize_spec:
  "sanitize (rt @ ''-'' @ py_str tid @ ''-'' @ un) = spec_channel_name rt tid un"
  by (simp add: sanitize_def spec_channel_name_def py_replace_char py_lower_def)

lemma spec_name_shape:
  "length (spec_channel_name rt tid un) \<le> 100 \<and> CHR '' '' \<notin> set (spec_channel_name rt tid un)"
  by (auto simp: spec_channel_name_def dest!: in_set_takeD)

text \<open>
  Claim C6. Whatever channel \<open>create_verification_channel\<close> asks the platform to create for a
  request type among citizen, foreigner and embassy carries the name the specification
  describes, built from the type, the ticket number (the loaded counter plus one) and the
  requester's user name: lowercased, spaces turned into hyphens, at most 100 characters.
\<close>

theorem channel_name_format:
  assumes "rt \<in> set request_types"
    and "load_config file = Inr config0"
    and "subscript config0 ''ticket_counter'' = Inr (JInt n)"
    and "CreateTextChannel name cat ow topic
           \<in> set (fst (create_verification_channel p file i rt))"
  shows "name = spec_channel_name rt (n + 1) (member_name (user i))
       \<and> length name \<le> 100 \<and> CHR '' '' \<notin> set name"
proof -
  obtain config tid raw role_ids col ttl where
    t: "next_ticket config0 = Inr (config, tid)" and
    r: "ticket_routing config rt tid (member_name (user i)) = Inr (raw, role_ids, col, ttl)" and
    n: "name = sanitize raw"
    using created_channel [OF assms(4)] assms(2) by auto
  have "tid = n + 1"
    using next_ticket_counter [OF t] assms(3) by auto
  moreover have "raw = rt @ ''-'' @ py_str tid @ ''-'' @ member_name (user i)"
    using routing_name [OF assms(1) r] .
  ultimately have "name = spec_channel_name rt (n + 1) (member_name (user i))"
    using n by (simp only: sanitize_spec)
  then show ?thesis
    using spec_name_shape by simp
qed

text \<open>
  Claim C1. For a request type among citizen, foreigner and embassy, the name and the topic
  that \<open>create_verification_channel\<close> hands to the platform are read back by the moderation
  commands exactly: the name passes their ticket-channel test, its part before the first
  hyphen is the request type, and the scan of the topic ends with the requester's user
  identifier, whatever the user name contains. The commands take an identifier other than 0
  as given (\<^verbatim>\<open>if user_id\<close>); Discord identifiers are positive.
\<close>

theorem ticket_roundtrip:
  assumes "rt \<in> set request_types"
    and "CreateTextChannel name cat ow topic
           \<in> set (fst (create_verification_channel p file i rt))"
  shows "py_startswith name ticket_prefixes \<and> request_type_of name = rt
       \<and> topic_user_id (Some topic) = Some (member_id (user i))
       \<and> (member_id (user i) \<noteq> 0 \<longrightarrow> id_given (topic_user_id (Some topic)))"
proof -
  obtain config tid raw role_ids col ttl where
    r: "ticket_routing config rt tid (member_name (user i)) = Inr (raw, role_ids, col, ttl)" and
    n: "name = sanitize raw" and
    t: "topic = ticket_topic (member_name (user i)) rt tid (member_id (user i))"
    using created_channel [OF assms(2)] by auto
  have "raw = rt @ ''-'' @ (py_str tid @ ''-'' @ member_name (user i))"
    using routing_name [OF assms(1) r] by simp
  then have "py_startswith name ticket_prefixes \<and> request_type_of name = rt"
    using sanitize_prefix [OF assms(1)] n by simp
  moreover have "topic_user_id (Some topic) = Some (member_id (user i))"
    using t by (simp only: topic_user_id_created)
  ultimately show ?thesis
    by (simp add: id_given_def)
qed

lemma py_str_4: "py_str 4 = ''4''"
  by (simp add: py_str_def str_nat.simps digit_char_def)

lemma py_str_501: "py_str 501 = ''501''"
  by (simp add: py_str_def str_nat.simps digit_char_def)

lemma demo_created:
  "CreateTextChannel ''citizen-4-alice'' None demo_overwrites alice_topic
     \<in> set (fst (create_verification_channel ok_platform demo_file (in_channel alice lobby) ''citizen''))"
  by (simp add: create_verification_channel_def load_demo_file try_py_def demo_config_def
      next_ticket_def subscript_def bind_err_def DEFAULT_CONFIG_def demo_roles_def
      ticket_routing_def config_role_def sanitize_def py_lower_def py_replace_char
      lower_char_def in_channel_def alice_def lobby_def find_category_def truthy_def
      demo_guild_def get_by_id_def base_overwrites_def bot_member_def everyone_role_def
      border_role_def ok_platform_def announce_ticket_def demo_overwrites_def
      ticket_topic_def alice_topic_def py_str_4 py_str_501)

theorem channel_name_format_witness:
  "''citizen-4-alice'' = spec_channel_name ''citizen'' (3 + 1) ''Alice''
   \<and> length ''citizen-4-alice'' \<le> 100 \<and> CHR '' '' \<notin> set ''citizen-4-alice''"
proof -
  have t: "''citizen'' \<in> set request_types"
    by (simp add: request_types_def)
  have c: "subscript demo_config ''ticket_counter'' = Inr (JInt 3)"
    by (simp add: subscript_def demo_config_def DEFAULT_CONFIG_def)
  have u: "member_name (user (in_channel alice lobby)) = ''Alice''"
    by (simp add: in_channel_def alice_def)
  show ?thesis
    using channel_name_format [OF t load_demo_file c demo_created] unfolding u .
qed

theorem ticket_roundtrip_witness:
  "py_startswith ''citizen-4-alice'' ticket_prefixes
   \<and> request_type_of ''citizen-4-alice'' = ''citizen''
   \<and> topic_user_id (Some alice_topic) = Some 501
   \<and> id_given (topic_user_id (Some alice_topic))"
proof -
  have t: "''citizen'' \<in> set request_types"
    by (simp add: request_types_def)
  have u: "member_id (user (in_channel alice lobby)) = 501"
    by (simp add: in_channel_def alice_def)
  show ?thesis
    using ticket_roundtrip [OF t demo_created] unfolding u by (simp add: id_given_def)
qed

section \<open>The ticket counter\<close>

text \<open>
  Claim C10. When \<open>create_verification_channel\<close> ends with a permission message, because the
  bot may not manage channels in the configured category or because the platform forbids the
  creation, the first call it made was the save of the configuration with the ticket counter
  one above the loaded value: config.json holds the advanced counter, and the run consists of
  that save, the refused creation call (in the second case) and the message to the requester.
\<close>

theorem counter_saved_before_abort:
  assumes "load_config file = Inr config0"
    and "next_ticket config0 = Inr (config, tid)"
    and "ticket_routing config rt tid (member_name (user i)) = Inr (raw, role_ids, col, ttl)"
    and "find_category config (guild i) = Inr category"
    and "role_overwrites (guild i) role_ids (base_overwrites (guild i) (user i)) = Inr ow"
    and "(\<exists>c. category = Some c \<and> \<not> bot_manage_channels c) \<or> (\<exists>e. create_result p = Forbidden e)"
  shows "\<exists>n rest. subscript config0 ''ticket_counter'' = Inr (JInt n)
           \<and> subscript config ''ticket_counter'' = Inr (JInt (n + 1))
           \<and> create_verification_channel p file i rt = (SaveConfig config # rest, None)
           \<and> file_after file (SaveConfig config # rest) = Parsed config
           \<and> (rest = [Respond (no_category_permission (the category))]
              \<or> (\<exists>e. create_result p = Forbidden e \<and>
                   rest = [CreateTextChannel (sanitize raw) category ow
                             (ticket_topic (member_name (user i)) rt tid (member_id (user i))),
                           Respond (create_forbidden category e)]))"
proof -
  obtain kvs n where c0: "config0 = JObj kvs"
    and n: "subscript config0 ''ticket_counter'' = Inr (JInt n)"
    and c: "config = JObj (dict_set ''ticket_counter'' (JInt (n + 1)) kvs)"
    using next_ticket_counter [OF assms(2)] by auto
  have n': "subscript config ''ticket_counter'' = Inr (JInt (n + 1))"
    by (simp add: c subscript_def map_of_dict_set)
  show ?thesis
  proof (cases "\<exists>c. category = Some c \<and> \<not> bot_manage_channels c")
    case True
    then have "create_verification_channel p file i rt
        = ([SaveConfig config, Respond (no_category_permission (the category))], None)"
      using assms(1-5) by (auto simp: create_verification_channel_def try_py_def)
    then show ?thesis
      using n n' by (simp add: file_after_def save_config_def)
  next
    case False
    then obtain e where e: "create_result p = Forbidden e"
      using assms(6) by auto
    from False have "\<not> (case category of None \<Rightarrow> False | Some c \<Rightarrow> \<not> bot_manage_channels c)"
      by (cases category) auto
    then have "create_verification_channel p file i rt
        = ([SaveConfig config,
            CreateTextChannel (sanitize raw) category ow
              (ticket_topic (member_name (user i)) rt tid (member_id (user i))),
            Respond (create_forbidden category e)], None)"
      using assms(1-5) e by (simp add: create_verification_channel_def try_py_def)
    then show ?thesis
      using n n' e by (simp add: file_after_def save_config_def)
  qed
qed

theorem counter_saved_before_abort_witness:
  "\<exists>n rest. subscript quiet_config ''ticket_counter'' = Inr (JInt n)
     \<and> subscript quiet_saved ''ticket_counter'' = Inr (JInt (n + 1))
     \<and> create_verification_channel ok_platform quiet_file (in_channel alice lobby) ''citizen''
         = (SaveConfig quiet_saved # rest, None)
     \<and> file_after quiet_file (SaveConfig quiet_saved # rest) = Parsed quiet_saved
     \<and> (rest = [Respond (no_category_permission (the (Some locked_category)))]
        \<or> (\<exists>e. create_result ok_platform = Forbidden e \<and>
             rest = [CreateTextChannel (sanitize ''citizen-4-Alice'') (Some locked_category)
                       demo_overwrites
                       (ticket_topic (member_name (user (in_channel alice lobby))) ''citizen'' 4
                          (member_id (user (in_channel alice lobby)))),
                     Respond (create_forbidden (Some locked_category) e)]))"
proof -
  have t: "next_ticket quiet_config = Inr (quiet_saved, 4)"
    by (simp add: next_ticket_def quiet_config_def quiet_saved_def subscript_def bind_err_def
        DEFAULT_CONFIG_def)
  have r: "ticket_routing quiet_saved ''citizen'' 4 (member_name (user (in_channel alice lobby)))
         = Inr (''citizen-4-Alice'', [JInt 13], Green, ''Citizenship Verification Request'')"
    by (simp add: ticket_routing_def quiet_saved_def config_role_def subscript_def bind_err_def
        DEFAULT_CONFIG_def demo_roles_def in_channel_def alice_def py_str_4)
  have c: "find_category quiet_saved (guild (in_channel alice lobby)) = Inr (Some locked_category)"
    by (simp add: find_category_def quiet_saved_def subscript_def bind_err_def DEFAULT_CONFIG_def
        truthy_def get_by_id_def in_channel_def demo_guild_def)
  have o: "role_overwrites (guild (in_channel alice lobby)) [JInt 13]
             (base_overwrites (guild (in_channel alice lobby)) (user (in_channel alice lobby)))
         = Inr demo_overwrites"
    by (simp add: truthy_def get_by_id_def in_channel_def demo_guild_def base_overwrites_def
        alice_def bot_member_def everyone_role_def border_role_def demo_overwrites_def)
  have a: "(\<exists>c. Some locked_category = Some c \<and> \<not> bot_manage_channels c)
         \<or> (\<exists>e. create_result ok_platform = Forbidden e)"
    by (simp add: locked_category_def)
  show ?thesis
    using counter_saved_before_abort [OF load_quiet_file t r c o a] .
qed

section \<open>After the decision: log entry, acknowledgment, deletion\<close>

lemma post_log_shape:
  assumes "post_log p config g e = Inr (logged, posted)"
  shows "\<forall>x\<in>set logged. (\<exists>c. x = Send c None e) \<or> (\<exists>k. x = Print k)"
  using assms
  by (auto simp: post_log_def bind_err_def
      split: sum.splits if_splits option.splits api_result.splits)

lemma post_log_sends:
  assumes "dict_get config ''log_channel_id'' = Inr lv" "truthy lv"
    and "get_by_id (guild_channels g) lv = Inr (Some lc)"
  shows "\<exists>logged posted. post_log p config g e = Inr (logged, posted)
           \<and> Send (channel_id lc) None e \<in> set logged"
  using assms
  by (auto simp: post_log_def bind_err_def split: api_result.splits)



lemma delete_later_shape:
  "\<exists>rest err. delete_later p i why made = (made @ rest, err)
     \<and> (\<forall>x\<in>set rest. x = Sleep 30 \<or> x = Delete (channel_id (channel i)) why \<or> (\<exists>k. x = Print k))"
  by (auto simp: delete_later_def Let_def split: api_result.splits)


lemma approve_decided_shape:
  "\<exists>rest err.
     approve_decided p config i reason m rt role_to_give made
       = (made @ Send (channel_id (channel i)) (Some (member_mention m))
                   (approve_user_embed rt role_to_give) # rest, err)
     \<and> (\<forall>x\<in>set rest.
           (\<exists>c. x = Send c None (approve_log_embed p (user i) m rt reason role_to_give))
         \<or> (\<exists>k. x = Print k) \<or> (\<exists>e. x = RespondEmbed e) \<or> x = Sleep 30
         \<or> (\<exists>why. x = Delete (channel_id (channel i)) why))"
proof (cases "post_log p config (guild i) (approve_log_embed p (user i) m rt reason role_to_give)")
  case (Inl e)
  then show ?thesis by (simp add: approve_decided_def try_py_def)
next
  case (Inr lp)
  obtain logged posted where lp: "lp = (logged, posted)" by (cases lp)
  note l = post_log_shape [OF Inr [unfolded lp]]
  show ?thesis
  proof (cases "with_warning config posted (approve_mod_embed (user i) m rt reason)")
    case (Inl e)
    with Inr lp l show ?thesis
      by (auto simp: approve_decided_def try_py_def)
  next
    case w: (Inr mod_embed)
    obtain rest err where d: "delete_later p i (''Verification approved by '' @ member_name (user i))
        ((made @ [Send (channel_id (channel i)) (Some (member_mention m))
                   (approve_user_embed rt role_to_give)]) @ logged @ [RespondEmbed mod_embed])
        = (((made @ [Send (channel_id (channel i)) (Some (member_mention m))
                   (approve_user_embed rt role_to_give)]) @ logged @ [RespondEmbed mod_embed]) @ rest, err)"
      and r: "\<forall>x\<in>set rest. x = Sleep 30 \<or> x = Delete (channel_id (channel i)) (''Verification approved by '' @ member_name (user i)) \<or> (\<exists>k. x = Print k)"
      using delete_later_shape by blast
    have "approve_decided p config i reason m rt role_to_give made
       = (made @ Send (channel_id (channel i)) (Some (member_mention m))
                   (approve_user_embed rt role_to_give) # (logged @ RespondEmbed mod_embed # rest), err)"
      using Inr lp w d by (simp add: approve_decided_def try_py_def)
    moreover have "\<forall>x\<in>set (logged @ RespondEmbed mod_embed # rest).
           (\<exists>c. x = Send c None (approve_log_embed p (user i) m rt reason role_to_give))
         \<or> (\<exists>k. x = Print k) \<or> (\<exists>e. x = RespondEmbed e) \<or> x = Sleep 30
         \<or> (\<exists>why. x = Delete (channel_id (channel i)) why)"
      using l r by auto
    ultimately show ?thesis by blast
  qed
qed

section \<open>Approval and the role it grants\<close>

lemma approve_after_checks:
  assumes "load_config file = Inr config"
    and "get_mod_roles config = Inr mod_roles"
    and "py_startswith (channel_name (channel i)) ticket_prefixes"
    and "has_permission mod_roles (member_role_ids (user i)) \<or> administrator (user i)"
    and "topic_user_id (channel_topic (channel i)) = Some uid" and "uid \<noteq> 0"
    and "guild_members (guild i) uid = Some m"
    and "role_for config (guild i) (request_type_of (channel_name (channel i))) = Inr role_to_give"
  shows "approve p file i reason =
     (case role_to_give of
        None \<Rightarrow> approve_decided p config i reason m (request_type_of (channel_name (channel i))) None []
      | Some r \<Rightarrow>
          (case add_roles_result p of
             Done \<Rightarrow> approve_decided p config i reason m
                       (request_type_of (channel_name (channel i))) (Some r) [AddRoles (member_id m) r]
           | Forbidden e \<Rightarrow> ([AddRoles (member_id m) r, Respond (cannot_assign r)], None)
           | NotFound e \<Rightarrow> ([AddRoles (member_id m) r, Respond (''Failed to assign role: '' @ e)], None)
           | HTTPException e \<Rightarrow>
               ([AddRoles (member_id m) r, Respond (''Failed to assign role: '' @ e)], None)))"
  using assms
  by (auto simp: approve_def try_py_def id_given_def Let_def split: option.splits)

text \<open>
  Claim C5. When \<open>approve\<close> has passed its checks and resolved a role to grant, and the
  platform answers the role change with anything but success, the run is the refused
  \<open>AddRoles\<close> call followed by one message to the moderator: nothing is sent to the ticket
  channel or to the log channel, and no deletion is scheduled.
\<close>

theorem role_grant_failure_aborts:
  assumes "load_config file = Inr config"
    and "get_mod_roles config = Inr mod_roles"
    and "py_startswith (channel_name (channel i)) ticket_prefixes"
    and "has_permission mod_roles (member_role_ids (user i)) \<or> administrator (user i)"
    and "topic_user_id (channel_topic (channel i)) = Some uid" and "uid \<noteq> 0"
    and "guild_members (guild i) uid = Some m"
    and "role_for config (guild i) (request_type_of (channel_name (channel i))) = Inr (Some r)"
    and "add_roles_result p \<noteq> Done"
  shows "\<exists>msg. approve p file i reason = ([AddRoles (member_id m) r, Respond msg], None)"
  using approve_after_checks [OF assms(1-8), of p reason] assms(9)
  by (cases "add_roles_result p") simp_all

lemma request_type_of_prefix:
  "prefix ''citizen-'' name \<Longrightarrow> request_type_of name = ''citizen''"
  "prefix ''foreigner-'' name \<Longrightarrow> request_type_of name = ''foreigner''"
  "prefix ''embassy-'' name \<Longrightarrow> request_type_of name = ''embassy''"
  by (auto simp: prefix_def request_type_of_def split: list.splits)

lemma ticket_prefix_startswith:
  "prefix ''citizen-'' name \<or> prefix ''foreigner-'' name \<or> prefix ''embassy-'' name
     \<longleftrightarrow> py_startswith name ticket_prefixes"
  by (auto simp: py_startswith_def ticket_prefixes_def)

lemma approve_add_roles:
  assumes "AddRoles mid r \<in> set (fst (approve p file i reason))"
  shows "\<exists>config. load_config file = Inr config
           \<and> role_for config (guild i) (request_type_of (channel_name (channel i))) = Inr (Some r)"
proof -
  have d: "AddRoles mid r \<in> set (fst (approve_decided p config i reason m rt role_to_give made))
        \<Longrightarrow> AddRoles mid r \<in> set made" for config m rt role_to_give made
    using approve_decided_shape [of p config i reason m rt role_to_give made] by auto
  show ?thesis
    using assms
    by (auto simp: approve_def try_py_def Let_def
        split: sum.splits if_splits option.splits api_result.splits dest!: d)
qed

lemma embassy_no_role: "role_for config g ''embassy'' = Inr None"
  by (simp add: role_for_def)

lemma with_warning_total:
  assumes "dict_get config ''log_channel_id'' = Inr lv"
  shows "\<exists>e'. with_warning config posted e = Inr e'"
  using assms by (simp add: with_warning_def bind_err_def)

lemma approve_decided_logs:
  assumes "dict_get config ''log_channel_id'' = Inr lv" "truthy lv"
    and "get_by_id (guild_channels (guild i)) lv = Inr (Some lc)"
  shows "Send (channel_id lc) None (approve_log_embed p (user i) m rt reason role_to_give)
           \<in> set (fst (approve_decided p config i reason m rt role_to_give made))"
proof -
  obtain logged posted where
    l: "post_log p config (guild i) (approve_log_embed p (user i) m rt reason role_to_give)
          = Inr (logged, posted)"
    and s: "Send (channel_id lc) None (approve_log_embed p (user i) m rt reason role_to_give)
          \<in> set logged"
    using post_log_sends [OF assms] by blast
  obtain e' where w: "with_warning config posted (approve_mod_embed (user i) m rt reason) = Inr e'"
    using with_warning_total [OF assms(1)] by blast
  obtain rest err where "delete_later p i (''Verification approved by '' @ member_name (user i))
      ((made @ [Send (channel_id (channel i)) (Some (member_mention m))
                 (approve_user_embed rt role_to_give)]) @ logged @ [RespondEmbed e'])
      = (((made @ [Send (channel_id (channel i)) (Some (member_mention m))
                 (approve_user_embed rt role_to_give)]) @ logged @ [RespondEmbed e']) @ rest, err)"
    using delete_later_shape by blast
  then show ?thesis
    using l w s by (simp add: approve_decided_def try_py_def)
qed

lemma role_field_user: "embed_fields (approve_user_embed rt (Some r)) = [(''Role Granted'', role_mention r, False)]"
  by (simp add: approve_user_embed_def with_role_field_def add_field_def new_embed_def)

lemma role_field_log:
  "embed_fields (approve_log_embed p actor m rt reason (Some r)) = [(''Role Granted'', role_mention r, True)]"
  by (simp add: approve_log_embed_def with_role_field_def add_field_def new_embed_def)

text \<open>
  Claim C4. An approval in a citizen ticket, by an authorized actor, of a requester who is a
  member, with the belgian role configured and resolvable and the platform accepting the
  change: the run starts with the grant of that role to that member and the notification in
  the ticket channel, whose embed has the field \<open>Role Granted\<close> with the role's mention; no
  other role is granted; every log entry sent carries the same field, and one is sent when
  the log channel is configured and resolvable. In an embassy ticket \<open>approve\<close> never calls
  \<open>AddRoles\<close>, whatever the configuration and the platform.
\<close>

theorem approve_grants_by_type:
  assumes "load_config file = Inr config"
    and "get_mod_roles config = Inr mod_roles"
    and "has_permission mod_roles (member_role_ids (user i)) \<or> administrator (user i)"
    and "topic_user_id (channel_topic (channel i)) = Some uid" and "uid \<noteq> 0"
    and "guild_members (guild i) uid = Some m"
    and "prefix ''citizen-'' (channel_name (channel i))"
    and "config_role config ''belgian'' = Inr v"
    and "get_by_id (guild_roles (guild i)) v = Inr (Some r)"
    and "add_roles_result p = Done"
  shows "(\<exists>ue rest err.
            approve p file i reason
              = (AddRoles (member_id m) r
                   # Send (channel_id (channel i)) (Some (member_mention m)) ue # rest, err)
          \<and> (''Role Granted'', role_mention r, False) \<in> set (embed_fields ue)
          \<and> (\<forall>mid r'. AddRoles mid r' \<notin> set rest)
          \<and> (\<forall>c e. Send c None e \<in> set rest
                 \<longrightarrow> (''Role Granted'', role_mention r, True) \<in> set (embed_fields e))
          \<and> (\<forall>lv lc. dict_get config ''log_channel_id'' = Inr lv \<and> truthy lv
                   \<and> get_by_id (guild_channels (guild i)) lv = Inr (Some lc)
                 \<longrightarrow> (\<exists>e. Send (channel_id lc) None e \<in> set rest)))
       \<and> (\<forall>p' file' i' reason'. prefix ''embassy-'' (channel_name (channel i'))
             \<longrightarrow> (\<forall>mid r'. AddRoles mid r' \<notin> set (fst (approve p' file' i' reason'))))"
proof
  let ?rt = "request_type_of (channel_name (channel i))"
  have rt: "?rt = ''citizen''"
    using assms(7) by (rule request_type_of_prefix)
  have t: "py_startswith (channel_name (channel i)) ticket_prefixes"
    using assms(7) ticket_prefix_startswith by blast
  have rf: "role_for config (guild i) ?rt = Inr (Some r)"
    using assms(8,9) by (simp add: rt role_for_def bind_err_def)
  have a: "approve p file i reason
      = approve_decided p config i reason m ?rt (Some r) [AddRoles (member_id m) r]"
    using approve_after_checks [OF assms(1,2) t assms(3-6) rf, of p reason] assms(10) by simp
  obtain rest err where
    d: "approve_decided p config i reason m ?rt (Some r) [AddRoles (member_id m) r]
        = ([AddRoles (member_id m) r] @ Send (channel_id (channel i)) (Some (member_mention m))
              (approve_user_embed ?rt (Some r)) # rest, err)"
    and r: "\<forall>x\<in>set rest.
           (\<exists>c. x = Send c None (approve_log_embed p (user i) m ?rt reason (Some r)))
         \<or> (\<exists>k. x = Print k) \<or> (\<exists>e. x = RespondEmbed e) \<or> x = Sleep 30
         \<or> (\<exists>why. x = Delete (channel_id (channel i)) why)"
    using approve_decided_shape by blast
  have g: "\<forall>mid r'. AddRoles mid r' \<notin> set rest"
    using r by auto
  have f: "\<forall>c e. Send c None e \<in> set rest
             \<longrightarrow> (''Role Granted'', role_mention r, True) \<in> set (embed_fields e)"
    using r by (auto simp: role_field_log)
  have l: "\<exists>e. Send (channel_id lc) None e \<in> set rest"
    if "dict_get config ''log_channel_id'' = Inr lv" "truthy lv"
      "get_by_id (guild_channels (guild i)) lv = Inr (Some lc)" for lv lc
    using approve_decided_logs [OF that, of p m ?rt reason "Some r" "[AddRoles (member_id m) r]"] d
    by auto
  show "\<exists>ue rest err.
            approve p file i reason
              = (AddRoles (member_id m) r
                   # Send (channel_id (channel i)) (Some (member_mention m)) ue # rest, err)
          \<and> (''Role Granted'', role_mention r, False) \<in> set (embed_fields ue)
          \<and> (\<forall>mid r'. AddRoles mid r' \<notin> set rest)
          \<and> (\<forall>c e. Send c None e \<in> set rest
                 \<longrightarrow> (''Role Granted'', role_mention r, True) \<in> set (embed_fields e))
          \<and> (\<forall>lv lc. dict_get config ''log_channel_id'' = Inr lv \<and> truthy lv
                   \<and> get_by_id (guild_channels (guild i)) lv = Inr (Some lc)
                 \<longrightarrow> (\<exists>e. Send (channel_id lc) None e \<in> set rest))"
    using a d g f l by (intro exI [of _ "approve_user_embed ?rt (Some r)"] exI [of _ rest] exI [of _ err])
      (simp add: role_field_user)
next
  show "\<forall>p' file' i' reason'. prefix ''embassy-'' (channel_name (channel i'))
             \<longrightarrow> (\<forall>mid r'. AddRoles mid r' \<notin> set (fst (approve p' file' i' reason')))"
    using approve_add_roles by (fastforce simp: request_type_of_prefix(3) embassy_no_role)
qed

lemma alice_topic_id: "topic_user_id (Some alice_topic) = Some 501"
proof -
  have e: "alice_topic = ticket_topic ''Alice'' ''citizen'' 4 501"
    by (simp add: alice_topic_def ticket_topic_def py_str_4 py_str_501)
  show ?thesis
    unfolding e by (rule topic_user_id_created)
qed

lemma bob_in_alice_ticket:
  "has_permission [JInt 13, JInt 14, JNull, JNull]
       (member_role_ids (user (in_channel bob alice_ticket)))
     \<or> administrator (user (in_channel bob alice_ticket))"
  "topic_user_id (channel_topic (channel (in_channel bob alice_ticket))) = Some 501"
  "guild_members (guild (in_channel bob alice_ticket)) 501 = Some alice"
  "prefix ''citizen-'' (channel_name (channel (in_channel bob alice_ticket)))"
  "channel_id (channel (in_channel bob alice_ticket)) = 90"
  by (simp_all add: has_permission_def py_in_def truthy_def in_channel_def bob_def
      alice_ticket_def ticket_chan_def alice_topic_id demo_guild_def)

lemma demo_belgian:
  "config_role demo_config ''belgian'' = Inr (JInt 11)"
  "get_by_id (guild_roles (guild (in_channel bob alice_ticket))) (JInt 11) = Inr (Some belgian_role)"
  by (simp_all add: config_role_def subscript_def bind_err_def demo_config_def DEFAULT_CONFIG_def
      demo_roles_def get_by_id_def in_channel_def demo_guild_def)

theorem approve_grants_by_type_witness:
  "\<exists>ue rest err.
     approve ok_platform demo_file (in_channel bob alice_ticket) ''id verified''
       = (AddRoles 501 belgian_role # Send 90 (Some ''<@501>'') ue # rest, err)
     \<and> (''Role Granted'', ''<@&11>'', False) \<in> set (embed_fields ue)
     \<and> (\<forall>mid r'. AddRoles mid r' \<notin> set rest)"
proof -
  have z: "(501::int) \<noteq> 0" by simp
  have d: "add_roles_result ok_platform = Done" by (simp add: ok_platform_def)
  have "\<exists>ue rest err.
     approve ok_platform demo_file (in_channel bob alice_ticket) ''id verified''
       = (AddRoles (member_id alice) belgian_role
            # Send (channel_id (channel (in_channel bob alice_ticket)))
                (Some (member_mention alice)) ue # rest, err)
     \<and> (''Role Granted'', role_mention belgian_role, False) \<in> set (embed_fields ue)
     \<and> (\<forall>mid r'. AddRoles mid r' \<notin> set rest)"
    using approve_grants_by_type [OF load_demo_file demo_mod_roles bob_in_alice_ticket(1,2) z
        bob_in_alice_ticket(3,4) demo_belgian d, of "''id verified''"]
    by blast
  then show ?thesis
    by (simp add: bob_in_alice_ticket(5) alice_def belgian_role_def)
qed

theorem role_grant_failure_aborts_witness:
  "\<exists>msg. approve strict_platform demo_file (in_channel bob alice_ticket) ''id verified''
            = ([AddRoles (member_id alice) belgian_role, Respond msg], None)"
proof -
  have z: "(501::int) \<noteq> 0" by simp
  have t: "py_startswith (channel_name (channel (in_channel bob alice_ticket))) ticket_prefixes"
    by (rule alice_ticket_is_ticket)
  have r: "role_for demo_config (guild (in_channel bob alice_ticket))
             (request_type_of (channel_name (channel (in_channel bob alice_ticket))))
           = Inr (Some belgian_role)"
    using demo_belgian
    by (simp add: request_type_of_prefix(1) [OF bob_in_alice_ticket(4)] role_for_def bind_err_def)
  have f: "add_roles_result strict_platform \<noteq> Done"
    by (simp add: strict_platform_def)
  show ?thesis
    using role_grant_failure_aborts [OF load_demo_file demo_mod_roles t bob_in_alice_ticket(1,2) z
        bob_in_alice_ticket(3) r f] .
qed

section \<open>Decisions without a log channel\<close>


lemma deny_after_checks:
  assumes "load_config file = Inr config"
    and "get_mod_roles config = Inr mod_roles"
    and "py_startswith (channel_name (channel i)) ticket_prefixes"
    and "has_permission mod_roles (member_role_ids (user i)) \<or> administrator (user i)"
  shows "deny p file i reason
       = deny_decided p config i reason
           (if id_given (topic_user_id (channel_topic (channel i)))
            then guild_members (guild i) (the (topic_user_id (channel_topic (channel i))))
            else None)
           (request_type_of (channel_name (channel i)))"
  using assms by (auto simp: deny_def try_py_def Let_def)




section \<open>Tickets whose requester cannot be read\<close>

lemma scan_nothing:
  assumes "\<forall>part\<in>set parts. py_contains ''User ID:'' part
             \<longrightarrow> py_int (py_strip (last (py_split CHR '':'' part))) = Inl ValueError"
  shows "foldl scan_part None parts = None"
  using assms
proof (induction parts rule: rev_induct)
  case Nil
  show ?case by simp
next
  case (snoc part parts)
  then show ?case by (simp add: scan_part_def)
qed

lemma deny_decided_shape:
  "\<exists>rest err.
     deny_decided p config i reason mo rt
       = (Send (channel_id (channel i))
            (case mo of Some x \<Rightarrow> Some (member_mention x) | None \<Rightarrow> None)
            (deny_user_embed rt) # rest, err)"
proof (cases "post_log p config (guild i) (deny_log_embed p (user i) mo rt reason)")
  case (Inl e)
  then show ?thesis by (simp add: deny_decided_def try_py_def)
next
  case (Inr lp)
  obtain logged posted where lp: "lp = (logged, posted)" by (cases lp)
  show ?thesis
  proof (cases "with_warning config posted (deny_mod_embed (user i) mo rt reason)")
    case (Inl e)
    with Inr lp show ?thesis by (simp add: deny_decided_def try_py_def)
  next
    case w: (Inr mod_embed)
    obtain rest err where "delete_later p i (''Verification denied by '' @ member_name (user i))
        (([Send (channel_id (channel i))
            (case mo of Some x \<Rightarrow> Some (member_mention x) | None \<Rightarrow> None)
            (deny_user_embed rt)]) @ logged @ [RespondEmbed mod_embed])
        = ((([Send (channel_id (channel i))
            (case mo of Some x \<Rightarrow> Some (member_mention x) | None \<Rightarrow> None)
            (deny_user_embed rt)]) @ logged @ [RespondEmbed mod_embed]) @ rest, err)"
      using delete_later_shape by blast
    with Inr lp w show ?thesis by (simp add: deny_decided_def try_py_def)
  qed
qed

lemma post_log_total:
  assumes "dict_get config ''log_channel_id'' = Inr lv" "\<forall>kvs. lv \<noteq> JObj kvs"
  shows "\<exists>logged posted. post_log p config g e = Inr (logged, posted)"
  using assms
  by (cases lv)
    (auto simp: post_log_def bind_err_def get_by_id_def split: option.splits api_result.splits)

lemma delete_later_deletes:
  "Sleep 30 \<in> set (fst (delete_later p i why made))
   \<and> Delete (channel_id (channel i)) why \<in> set (fst (delete_later p i why made))
   \<and> set made \<subseteq> set (fst (delete_later p i why made))"
  by (auto simp: delete_later_def Let_def split: api_result.splits)

lemma deny_decided_runs:
  assumes "dict_get config ''log_channel_id'' = Inr lv" "\<forall>kvs. lv \<noteq> JObj kvs"
  shows "Sleep 30 \<in> set (fst (deny_decided p config i reason mo rt))
       \<and> Delete (channel_id (channel i)) (''Verification denied by '' @ member_name (user i))
           \<in> set (fst (deny_decided p config i reason mo rt))
       \<and> (\<exists>e. RespondEmbed e \<in> set (fst (deny_decided p config i reason mo rt)))"
proof -
  obtain logged posted where
    l: "post_log p config (guild i) (deny_log_embed p (user i) mo rt reason) = Inr (logged, posted)"
    using post_log_total [OF assms] by blast
  obtain e' where w: "with_warning config posted (deny_mod_embed (user i) mo rt reason) = Inr e'"
    using with_warning_total [OF assms(1)] by blast
  show ?thesis
    using delete_later_deletes [of p i "''Verification denied by '' @ member_name (user i)"
        "([Send (channel_id (channel i))
            (case mo of Some x \<Rightarrow> Some (member_mention x) | None \<Rightarrow> None)
            (deny_user_embed rt)]) @ logged @ [RespondEmbed e']"] l w
    by (auto simp: deny_decided_def try_py_def)
qed

lemma deny_decided_logs:
  assumes "dict_get config ''log_channel_id'' = Inr lv" "truthy lv"
    and "get_by_id (guild_channels (guild i)) lv = Inr (Some lc)"
  shows "Send (channel_id lc) None (deny_log_embed p (user i) mo rt reason)
           \<in> set (fst (deny_decided p config i reason mo rt))"
proof -
  obtain logged posted where
    l: "post_log p config (guild i) (deny_log_embed p (user i) mo rt reason) = Inr (logged, posted)"
    and s: "Send (channel_id lc) None (deny_log_embed p (user i) mo rt reason) \<in> set logged"
    using post_log_sends [OF assms] by blast
  obtain e' where w: "with_warning config posted (deny_mod_embed (user i) mo rt reason) = Inr e'"
    using with_warning_total [OF assms(1)] by blast
  show ?thesis
    using delete_later_deletes [of p i "''Verification denied by '' @ member_name (user i)"
        "([Send (channel_id (channel i))
            (case mo of Some x \<Rightarrow> Some (member_mention x) | None \<Rightarrow> None)
            (deny_user_embed rt)]) @ logged @ [RespondEmbed e']"] l w s
    by (auto simp: deny_decided_def try_py_def)
qed

text \<open>
  Claim C3, amended. In a ticket channel, for an authorized actor, when no segment of the
  topic that contains \<^verbatim>\<open>User ID:\<close> ends in text that \<^verbatim>\<open>int\<close> accepts: \<open>approve\<close> answers the
  moderator that the user could not be found and makes no other call. \<open>deny\<close> does not stop:
  it notifies in the ticket channel without a mention and, unless the configured log channel
  identifier is an object, goes on to the acknowledgment, the wait and the deletion; a log
  entry it sends names the requester \<^verbatim>\<open>Unknown\<close>.
\<close>

theorem unresolvable_requester:
  assumes "load_config file = Inr config"
    and "get_mod_roles config = Inr mod_roles"
    and "py_startswith (channel_name (channel i)) ticket_prefixes"
    and "has_permission mod_roles (member_role_ids (user i)) \<or> administrator (user i)"
    and "\<forall>part\<in>set (py_split CHR ''|'' (case channel_topic (channel i) of None \<Rightarrow> [] | Some s \<Rightarrow> s)).
           py_contains ''User ID:'' part
             \<longrightarrow> py_int (py_strip (last (py_split CHR '':'' part))) = Inl ValueError"
  shows "approve p file i reason = ([Respond user_not_found], None)
       \<and> (\<exists>rest err.
            deny p file i reason
              = (Send (channel_id (channel i)) None
                   (deny_user_embed (request_type_of (channel_name (channel i)))) # rest, err))
       \<and> (\<forall>lv. dict_get config ''log_channel_id'' = Inr lv \<and> (\<forall>kvs. lv \<noteq> JObj kvs)
             \<longrightarrow> Sleep 30 \<in> set (fst (deny p file i reason))
               \<and> Delete (channel_id (channel i)) (''Verification denied by '' @ member_name (user i))
                   \<in> set (fst (deny p file i reason))
               \<and> (\<exists>e. RespondEmbed e \<in> set (fst (deny p file i reason))))
       \<and> (\<forall>lv lc. dict_get config ''log_channel_id'' = Inr lv \<and> truthy lv
               \<and> get_by_id (guild_channels (guild i)) lv = Inr (Some lc)
             \<longrightarrow> Send (channel_id lc) None
                   (deny_log_embed p (user i) None (request_type_of (channel_name (channel i)))
                      reason)
                   \<in> set (fst (deny p file i reason)))"
proof -
  have u: "topic_user_id (channel_topic (channel i)) = None"
    unfolding topic_user_id_def using assms(5) by (rule scan_nothing)
  have a: "approve p file i reason = ([Respond user_not_found], None)"
    using assms(1-4) by (auto simp: approve_def try_py_def u id_given_def)
  have d: "deny p file i reason
      = deny_decided p config i reason None (request_type_of (channel_name (channel i)))"
    unfolding deny_after_checks [OF assms(1-4)] by (simp add: u id_given_def)
  show ?thesis
    unfolding d using a deny_decided_shape [of p config i reason None]
      deny_decided_runs [of config _ p i reason None] deny_decided_logs [of config _ i _ p None]
    by auto
qed

lemma bob_in_bare_ticket:
  "py_startswith (channel_name (channel (in_channel bob bare_ticket))) ticket_prefixes"
  "has_permission [JInt 13, JInt 14, JNull, JNull]
       (member_role_ids (user (in_channel bob bare_ticket)))
     \<or> administrator (user (in_channel bob bare_ticket))"
  "channel_topic (channel (in_channel bob bare_ticket)) = None"
  "channel_id (channel (in_channel bob bare_ticket)) = 90"
  "request_type_of (channel_name (channel (in_channel bob bare_ticket))) = ''citizen''"
  "user (in_channel bob bare_ticket) = bob"
  "guild (in_channel bob bare_ticket) = demo_guild"
  by (simp_all add: has_permission_def py_in_def truthy_def in_channel_def bob_def
      bare_ticket_def ticket_chan_def py_startswith_def ticket_prefixes_def request_type_of_def)

lemma demo_log_channel:
  "dict_get demo_config ''log_channel_id'' = Inr (JInt 70)"
  "truthy (JInt 70)"
  "get_by_id (guild_channels demo_guild) (JInt 70) = Inr (Some log_chan)"
  "channel_id log_chan = 70"
  by (simp_all add: dict_get_def demo_config_def DEFAULT_CONFIG_def truthy_def get_by_id_def
      demo_guild_def log_chan_def)

lemma ok_platform_answers:
  "add_roles_result ok_platform = Done" "log_send_result ok_platform = Done"
  "delete_result ok_platform = Done" "create_result ok_platform = Done"
  by (simp_all add: ok_platform_def)

lemma bob_name: "member_name bob = ''bob''"
  by (simp add: bob_def)

theorem unresolvable_requester_witness:
  "approve ok_platform demo_file (in_channel bob bare_ticket) ''fine'' = ([Respond user_not_found], None)
   \<and> (\<exists>rest err.
        deny ok_platform demo_file (in_channel bob bare_ticket) ''fine''
          = (Send 90 None (deny_user_embed ''citizen'') # rest, err))"
proof -
  have h: "\<forall>part\<in>set (py_split CHR ''|''
               (case channel_topic (channel (in_channel bob bare_ticket)) of None \<Rightarrow> [] | Some s \<Rightarrow> s)).
           py_contains ''User ID:'' part
             \<longrightarrow> py_int (py_strip (last (py_split CHR '':'' part))) = Inl ValueError"
    by (simp add: bob_in_bare_ticket(3))
  show ?thesis
    using unresolvable_requester [OF load_demo_file demo_mod_roles bob_in_bare_ticket(1,2) h,
        of ok_platform "''fine''"]
    unfolding bob_in_bare_ticket(4,5) by blast
qed

text \<open>
  The run behind the amendment: on the sample server a moderator denies in a ticket channel
  whose topic is gone. No user identifier is found, and \<open>deny\<close> still notifies in the channel
  (without a mention), writes the log entry naming the requester \<^verbatim>\<open>Unknown\<close>, acknowledges and
  schedules the deletion.
\<close>

theorem deny_without_requester_counterexample:
  "topic_user_id (channel_topic (channel (in_channel bob bare_ticket))) = None
   \<and> deny ok_platform demo_file (in_channel bob bare_ticket) ''no papers''
       = ([Send 90 None (deny_user_embed ''citizen''),
           Send 70 None (deny_log_embed ok_platform bob None ''citizen'' ''no papers''),
           RespondEmbed (deny_mod_embed bob None ''citizen'' ''no papers''),
           Sleep 30,
           Delete 90 ''Verification denied by bob''], None)"
proof -
  have u: "topic_user_id (channel_topic (channel (in_channel bob bare_ticket))) = None"
    by (simp add: bob_in_bare_ticket(3) topic_user_id_def scan_part_def)
  have "deny ok_platform demo_file (in_channel bob bare_ticket) ''no papers''
      = deny_decided ok_platform demo_config (in_channel bob bare_ticket) ''no papers'' None ''citizen''"
    unfolding deny_after_checks [OF load_demo_file demo_mod_roles bob_in_bare_ticket(1,2)]
    by (simp add: u id_given_def bob_in_bare_ticket(5))
  also have "\<dots> = ([Send 90 None (deny_user_embed ''citizen''),
           Send 70 None (deny_log_embed ok_platform bob None ''citizen'' ''no papers''),
           RespondEmbed (deny_mod_embed bob None ''citizen'' ''no papers''),
           Sleep 30,
           Delete 90 ''Verification denied by bob''], None)"
    by (simp add: deny_decided_def try_py_def post_log_def with_warning_def delete_later_def
        bind_err_def demo_log_channel bob_in_bare_ticket(4,6,7) ok_platform_answers bob_name)
  finally show ?thesis
    using u by simp
qed

section \<open>Who may decide\<close>







section \<open>Loading the configuration\<close>

lemma merge_defaults_lookup:
  "map_of (merge_defaults defaults config) key
     = (case map_of config key of Some v \<Rightarrow> Some v | None \<Rightarrow> map_of defaults key)"
  by (induction defaults config rule: merge_defaults.induct)
    (auto simp: map_add_def split: option.splits)

lemma load_config_top_level:
  assumes "load_config (Parsed (JObj kvs)) = Inr config" and "(key, val) \<in> set DEFAULT_CONFIG"
  shows "subscript config key
           = Inr (case map_of kvs key of Some v \<Rightarrow> v | None \<Rightarrow> the (map_of DEFAULT_CONFIG key))"
proof -
  have "map_of DEFAULT_CONFIG key \<noteq> None"
    using assms(2) by (metis map_of_eq_None_iff fst_conv image_eqI)
  then show ?thesis
    using assms(1)
    by (auto simp: load_config_def subscript_def merge_defaults_lookup split: option.splits)
qed

text \<open>
  Claim C7. \<open>load_config\<close> fills the missing top-level keys (lemma \<open>load_config_top_level\<close>)
  but leaves a \<^verbatim>\<open>roles\<close> object as the file has it: from a file whose \<^verbatim>\<open>roles\<close> names the belgian
  role only, the loaded configuration has no \<^verbatim>\<open>border_control\<close> key, and \<open>approve\<close> ends with
  the KeyError of \<^verbatim>\<open>config["roles"]["border_control"]\<close>.
\<close>

theorem nested_role_keys_not_merged:
  "load_config partial_roles_file
     = Inr (JObj [(''roles'', JObj [(''belgian'', JInt 11)]),
                  (''welcome_channel_id'', JNull),
                  (''verification_category_id'', JNull),
                  (''log_channel_id'', JNull),
                  (''welcome_message'', JStr default_welcome_message),
                  (''ticket_counter'', JInt 0)])
   \<and> bind_err (load_config partial_roles_file) (\<lambda>config. config_role config ''belgian'')
       = Inr (JInt 11)
   \<and> bind_err (load_config partial_roles_file) (\<lambda>config. config_role config ''border_control'')
       = Inl KeyError
   \<and> approve ok_platform partial_roles_file (in_channel bob alice_ticket) ''id verified''
       = ([], Some (Py KeyError))"
proof -
  have l: "load_config partial_roles_file
     = Inr (JObj [(''roles'', JObj [(''belgian'', JInt 11)]),
                  (''welcome_channel_id'', JNull),
                  (''verification_category_id'', JNull),
                  (''log_channel_id'', JNull),
                  (''welcome_message'', JStr default_welcome_message),
                  (''ticket_counter'', JInt 0)])"
    by (simp add: load_config_def partial_roles_file_def DEFAULT_CONFIG_def)
  have m: "get_mod_roles (JObj [(''roles'', JObj [(''belgian'', JInt 11)]),
                  (''welcome_channel_id'', JNull),
                  (''verification_category_id'', JNull),
                  (''log_channel_id'', JNull),
                  (''welcome_message'', JStr default_welcome_message),
                  (''ticket_counter'', JInt 0)]) = Inl KeyError"
    by (simp add: get_mod_roles_def config_role_def subscript_def bind_err_def)
  show ?thesis
    using alice_ticket_is_ticket [of bob]
    by (simp add: l m approve_def try_py_def config_role_def subscript_def bind_err_def)
qed

end
